theory Spec2Isabelle
  imports Main "HOL-Library.Word"
begin

unbundle bit_operations_syntax

section \<open>The EFI handover loader of grub-core/loader/i386/efi/linux.c\<close>

text \<open>
  A shallow embedding of the module for the x86_64 target (pointers, \<open>grub_size_t\<close>,
  \<open>grub_ssize_t\<close>, \<open>grub_off_t\<close> and \<open>grub_efi_uintn_t\<close> are 64 bits wide). The module's
  static variables, the ambient \<open>grub_errno\<close>, the firmware memory the module writes to
  and the answers of the platform form one record that every function takes and returns.
  Every call into the platform and every store the module performs on its own state is
  appended, in program order, to an event log, so that orderings and frees can be counted.
  Where the program would stop with a machine fault (a null pointer that is dereferenced,
  a copy of close to 2^64 bytes), the world is marked as faulted and nothing more is
  executed.
\<close>

subsection \<open>Data\<close>

type_synonym addr = "64 word"

datatype grub_err_t =
    GRUB_ERR_NONE
  | GRUB_ERR_BAD_ARGUMENT
  | GRUB_ERR_OUT_OF_MEMORY
  | GRUB_ERR_FILE_READ_ERROR
  | GRUB_ERR_INVALID_COMMAND
  | GRUB_ERR_BAD_OS
  | GRUB_ERR_FILE_NOT_FOUND
  | GRUB_ERR_IO

text \<open>
  The fields of \<open>struct linux_kernel_header\<close> that the module reads or writes. The struct
  is declared in grub/cpu/linux.h, which is not part of the sources at hand; the widths are
  those of the Linux x86 boot protocol. \<open>struct linux_kernel_params\<close> carries the same
  fields at the same offsets inside its first 1024 bytes (this is what the copy of the
  header into the parameter block at line 328 relies on), so a parameter block is
  modelled by the same record.
\<close>

record linux_kernel_header =
  setup_sects :: "8 word"
  boot_flag :: "16 word"
  version :: "16 word"
  type_of_loader :: "8 word"
  code32_start :: "32 word"
  ramdisk_image :: "32 word"
  ramdisk_size :: "32 word"
  cmd_line_ptr :: "32 word"
  cmdline_size :: "32 word"
  pref_address :: "64 word"
  init_size :: "32 word"
  handover_offset :: "32 word"

definition zero_header :: linux_kernel_header where
  "zero_header = \<lparr> setup_sects = 0, boot_flag = 0, version = 0, type_of_loader = 0,
     code32_start = 0, ramdisk_image = 0, ramdisk_size = 0, cmd_line_ptr = 0,
     cmdline_size = 0, pref_address = 0, init_size = 0, handover_offset = 0 \<rparr>"

text \<open>
  The events of the log. A call that leaves the module is an event and nothing more:
  \<open>grub_dl_ref\<close> and \<open>grub_dl_unref\<close>, the file layer, \<open>grub_malloc\<close>, \<open>grub_zalloc\<close> and
  \<open>grub_free\<close>, the measurement sink \<open>grub_tpm_measure\<close>, the building of the command
  line (lines 291 to 296), the copy of the payload, and \<open>grub_loader_set\<close>, which the
  spec describes as the registration of the boot and the unload action with the outer
  dispatcher. None of these functions is part of the sources at hand, and none of them
  changes a variable of the module.
\<close>

datatype event =
    Dl_ref
  | Dl_unref
  | File_open
  | File_close
  | Kernel_malloc
  | Kernel_free
  | Files_zalloc
  | Files_free
  | Tpm_measure_kernel "64 word"
  | Tpm_measure_initrd addr "64 word"
  | Secure_validate bool
  | Allocate_pages_max addr "64 word" addr
  | Allocate_pages addr "64 word" addr
  | Free_pages addr "64 word"
  | Memset_params addr
  | Cmdline_built addr
  | Copy_kernel addr "64 word" "64 word"
  | Loader_set
  | Store_loaded bool
  | Copy_header addr linux_kernel_header
  | Store_loader_type addr "8 word"
  | Handover addr addr

text \<open>
  The static variables of lines 35 to 42 (\<open>my_mod\<close> appears through the events
  \<open>Dl_ref\<close> and \<open>Dl_unref\<close>), then \<open>grub_errno\<close> with its message, the parameter
  blocks and the bytes of firmware memory, the answers the page allocator will give to
  the coming requests, the event log, and whether the machine has faulted.
\<close>

record world =
  loaded :: bool
  kernel_mem :: addr
  kernel_size :: "64 word"
  initrd_mem :: addr
  handover_offset_var :: "32 word"
  params :: addr
  linux_cmdline :: addr
  grub_errno :: grub_err_t
  errmsg :: string
  pmem :: "addr \<Rightarrow> linux_kernel_header"
  bmem :: "addr \<Rightarrow> 8 word"
  alloc_answers :: "addr list"
  trace :: "event list"
  faulted :: bool

definition init_world :: "addr list \<Rightarrow> world" where
  "init_world answers = \<lparr> loaded = False, kernel_mem = 0, kernel_size = 0, initrd_mem = 0,
     handover_offset_var = 0, params = 0, linux_cmdline = 0,
     grub_errno = GRUB_ERR_NONE, errmsg = [],
     pmem = (\<lambda>_. zero_header), bmem = (\<lambda>_. 0),
     alloc_answers = answers, trace = [], faulted = False \<rparr>"

definition log :: "event \<Rightarrow> world \<Rightarrow> world" where
  "log e w = w\<lparr>trace := trace w @ [e]\<rparr>"

definition events_since :: "world \<Rightarrow> world \<Rightarrow> event list" where
  "events_since w w' = drop (length (trace w)) (trace w')"

definition fault :: "world \<Rightarrow> world" where
  "fault w = w\<lparr>faulted := True\<rparr>"

definition grub_error :: "grub_err_t \<Rightarrow> string \<Rightarrow> world \<Rightarrow> world" where
  "grub_error n msg w = w\<lparr>grub_errno := n, errmsg := msg\<rparr>"

text \<open>
  A failing call into the file layer (\<open>grub_file_open\<close>, \<open>grub_file_read\<close>) leaves its
  error in \<open>grub_errno\<close>; a failure that reports \<open>GRUB_ERR_NONE\<close> leaves \<open>grub_errno\<close>
  as it was.
\<close>

definition file_layer_error :: "grub_err_t \<Rightarrow> world \<Rightarrow> world" where
  "file_layer_error e w = (if e = GRUB_ERR_NONE then w else w\<lparr>grub_errno := e\<rparr>)"

subsection \<open>Macros\<close>

definition BYTES_TO_PAGES :: "'a::len word \<Rightarrow> 'a word" where
  "BYTES_TO_PAGES bytes = drop_bit 12 (bytes + 0xfff)"

text \<open>
  Modelled from the spec: \<open>ALIGN_UP\<close> and \<open>ALIGN_UP_OVERHEAD\<close> are macros of
  grub/misc.h, which is not part of the sources at hand. The first rounds a size up to
  the next multiple of the alignment, the second is the number of padding bytes this adds;
  both compute in the type of their first argument.
\<close>

definition ALIGN_UP :: "'a::len word \<Rightarrow> 'a word \<Rightarrow> 'a word" where
  "ALIGN_UP a align = (a + align - 1) AND NOT (align - 1)"

definition ALIGN_UP_OVERHEAD :: "'a::len word \<Rightarrow> 'a word \<Rightarrow> 'a word" where
  "ALIGN_UP_OVERHEAD a align = (- a) AND (align - 1)"

subsection \<open>The platform's page allocator\<close>

text \<open>
  Modelled from the spec: \<open>grub_efi_allocate_pages_max\<close>, \<open>grub_efi_allocate_pages\<close>
  and \<open>grub_efi_free_pages\<close> belong to the EFI memory manager, which is not part of the
  sources at hand. The spec gives their three shapes: allocate below a ceiling, allocate
  at a fixed address, free. What the firmware answers is an input: the next element of
  \<open>alloc_answers\<close> (0, or no element left, is a refusal). An allocation below a ceiling
  yields the answered address only when the whole region of \<open>pages\<close> pages ends at or
  below the ceiling; an allocation at a fixed address yields that address when the
  firmware grants it.
\<close>

definition grub_efi_allocate_pages_max :: "addr \<Rightarrow> 64 word \<Rightarrow> world \<Rightarrow> addr \<times> world" where
  "grub_efi_allocate_pages_max mx pages w =
     (case alloc_answers w of
        [] \<Rightarrow> (0, log (Allocate_pages_max mx pages 0) w)
      | a # rest \<Rightarrow>
          (let r = (if unat a + unat pages * 4096 \<le> unat mx + 1 then a else 0)
           in (r, log (Allocate_pages_max mx pages r) (w\<lparr>alloc_answers := rest\<rparr>))))"

definition grub_efi_allocate_pages :: "addr \<Rightarrow> 64 word \<Rightarrow> world \<Rightarrow> addr \<times> world" where
  "grub_efi_allocate_pages address pages w =
     (case alloc_answers w of
        [] \<Rightarrow> (0, log (Allocate_pages address pages 0) w)
      | a # rest \<Rightarrow>
          (let r = (if a \<noteq> 0 then address else 0)
           in (r, log (Allocate_pages address pages r) (w\<lparr>alloc_answers := rest\<rparr>))))"

definition grub_efi_free_pages :: "addr \<Rightarrow> 64 word \<Rightarrow> world \<Rightarrow> world" where
  "grub_efi_free_pages address pages w = log (Free_pages address pages) w"

subsection \<open>Signature verification (lines 55 to 74)\<close>

text \<open>
  \<open>shim_lock\<close> is the result of looking the shim protocol up: \<open>None\<close> when the firmware
  does not have it, otherwise whether its \<open>verify\<close> returns \<open>GRUB_EFI_SUCCESS\<close> on
  the buffer. \<open>secure_boot\<close> is the answer of \<open>grub_efi_secure_boot\<close>.
\<close>

record efi_platform =
  shim_lock :: "bool option"
  secure_boot :: bool

definition grub_linuxefi_secure_validate :: "efi_platform \<Rightarrow> bool" where
  "grub_linuxefi_secure_validate p =
     (case shim_lock p of
        None \<Rightarrow> (if secure_boot p then False else True)
      | Some verify_ok \<Rightarrow> (if verify_ok then True else False))"

subsection \<open>Boot and unload (lines 78 to 115)\<close>

definition grub_linuxefi_boot :: "world \<Rightarrow> world" where
  "grub_linuxefi_boot w =
     log (Handover (kernel_mem w + ucast (handover_offset_var w) + 512) (params w)) w"

text \<open>
  Lines 106 and 108 read \<open>params->ramdisk_size\<close> and \<open>params->cmdline_size\<close> before
  line 111 tests \<open>params\<close>: with \<open>params\<close> null, either read is a fault.
\<close>

definition grub_linuxefi_unload :: "world \<Rightarrow> world" where
  "grub_linuxefi_unload w0 =
     (let w1 = log Dl_unref w0;
          w2 = log (Store_loaded False) (w1\<lparr>loaded := False\<rparr>)
      in if initrd_mem w2 \<noteq> 0 \<and> params w2 = 0 then fault w2
         else
           (let w3 = (if initrd_mem w2 \<noteq> 0
                      then grub_efi_free_pages (initrd_mem w2)
                             (ucast (BYTES_TO_PAGES (ramdisk_size (pmem w2 (params w2))))) w2
                      else w2)
            in if linux_cmdline w3 \<noteq> 0 \<and> params w3 = 0 then fault w3
               else
                 (let w4 = (if linux_cmdline w3 \<noteq> 0
                            then grub_efi_free_pages (linux_cmdline w3)
                                   (ucast (BYTES_TO_PAGES (cmdline_size (pmem w3 (params w3)) + 1))) w3
                            else w3);
                      w5 = (if kernel_mem w4 \<noteq> 0
                            then grub_efi_free_pages (kernel_mem w4)
                                   (BYTES_TO_PAGES (kernel_size w4)) w4
                            else w4);
                      w6 = (if params w5 \<noteq> 0
                            then grub_efi_free_pages (params w5)
                                   (ucast (BYTES_TO_PAGES (16384 :: 32 word))) w5
                            else w5)
                  in w6)))"

subsection \<open>Loading the initial ramdisk (lines 117 to 198)\<close>

text \<open>
  A source file as the file layer presents it: its name on the command line, whether
  \<open>grub_file_open\<close> succeeds
  (otherwise the error the file layer leaves in \<open>grub_errno\<close>), the size
  \<open>grub_file_size\<close> reports, and what \<open>grub_file_read\<close> does when asked for the
  bytes: it fails (returning -1, with the file layer's error in \<open>grub_errno\<close>) or it
  delivers bytes, never more than asked for.
\<close>

datatype read_result = Read_error grub_err_t | Read_bytes "8 word list"

record grub_file =
  file_name :: string
  file_size :: "64 word"
  file_read :: read_result

fun store_bytes :: "addr \<Rightarrow> 8 word list \<Rightarrow> (addr \<Rightarrow> 8 word) \<Rightarrow> (addr \<Rightarrow> 8 word)" where
  "store_bytes p [] m = m"
| "store_bytes p (b # bs) m = store_bytes (p + 1) bs (m(p := b))"

definition grub_file_read :: "grub_file \<Rightarrow> addr \<Rightarrow> 64 word \<Rightarrow> world \<Rightarrow> 64 word \<times> world" where
  "grub_file_read f buf len w =
     (case file_read f of
        Read_error e \<Rightarrow> (- 1, file_layer_error e w)
      | Read_bytes bs \<Rightarrow>
          (let got = take (unat len) bs
           in (of_nat (length got), w\<lparr>bmem := store_bytes buf got (bmem w)\<rparr>)))"

definition grub_memset :: "addr \<Rightarrow> 8 word \<Rightarrow> 64 word \<Rightarrow> world \<Rightarrow> world" where
  "grub_memset p c n w = w\<lparr>bmem := store_bytes p (replicate (unat n) c) (bmem w)\<rparr>"

text \<open>
  The first loop (lines 142 to 150) opens the files in order and adds up their aligned
  sizes; it stops at the first file that does not open. It returns the files opened so
  far (\<open>nfiles\<close> is their number), the sum, and whether every file opened.
\<close>

fun initrd_open_files ::
  "(grub_err_t + grub_file) list \<Rightarrow> grub_file list \<Rightarrow> 64 word \<Rightarrow> world
     \<Rightarrow> bool \<times> grub_file list \<times> 64 word \<times> world" where
  "initrd_open_files [] files sz w = (True, files, sz, w)"
| "initrd_open_files (Inl e # rest) files sz w = (False, files, sz, file_layer_error e w)"
| "initrd_open_files (Inr f # rest) files sz w =
     initrd_open_files rest (files @ [f]) (sz + ALIGN_UP (file_size f) 4) (log File_open w)"

text \<open>
  The second loop (lines 168 to 182) reads each file at the write cursor, measures the
  bytes read, zero-fills the padding and advances the cursor. It returns whether every
  read delivered the declared size.
\<close>

fun initrd_read_files :: "grub_file list \<Rightarrow> addr \<Rightarrow> world \<Rightarrow> bool \<times> world" where
  "initrd_read_files [] ptr w = (True, w)"
| "initrd_read_files (f # rest) ptr w =
     (let cursize = file_size f;
          (n, w1) = grub_file_read f ptr cursize w
      in if n \<noteq> cursize
         then (False,
               if grub_errno w1 = GRUB_ERR_NONE
               then grub_error GRUB_ERR_FILE_READ_ERROR
                      (''premature end of file '' @ file_name f) w1
               else w1)
         else (let w2 = log (Tpm_measure_initrd ptr cursize) w1;
                   ptr1 = ptr + cursize;
                   w3 = grub_memset ptr1 0 (ALIGN_UP_OVERHEAD cursize 4) w2;
                   ptr2 = ptr1 + ALIGN_UP_OVERHEAD cursize 4
               in initrd_read_files rest ptr2 w3))"

text \<open>
  The code after the label \<open>fail\<close> (lines 186 to 197). The flag says whether \<open>files\<close>
  is not null.
\<close>

definition initrd_fail :: "bool \<Rightarrow> grub_file list \<Rightarrow> 64 word \<Rightarrow> world \<Rightarrow> world" where
  "initrd_fail have_files files sz w0 =
     (let w1 = fold (\<lambda>_. log File_close) files w0;
          w2 = (if have_files then log Files_free w1 else w1)
      in if initrd_mem w2 \<noteq> 0 \<and> grub_errno w2 \<noteq> GRUB_ERR_NONE
         then grub_efi_free_pages (initrd_mem w2) (BYTES_TO_PAGES sz) w2
         else w2)"

record initrd_env =
  initrd_argv :: "(grub_err_t + grub_file) list"
  zalloc_ok :: bool

definition grub_cmd_initrd :: "initrd_env \<Rightarrow> world \<Rightarrow> world" where
  "grub_cmd_initrd e w0 =
     (if initrd_argv e = []
      then initrd_fail False [] 0 (grub_error GRUB_ERR_BAD_ARGUMENT ''filename expected'' w0)
      else if \<not> loaded w0
      then initrd_fail False [] 0
             (grub_error GRUB_ERR_BAD_ARGUMENT ''you need to load the kernel first'' w0)
      else if \<not> zalloc_ok e
      then initrd_fail False [] 0 (w0\<lparr>grub_errno := GRUB_ERR_OUT_OF_MEMORY\<rparr>)
      else
        (let (opened, files, sz, w1) = initrd_open_files (initrd_argv e) [] 0 (log Files_zalloc w0)
         in if \<not> opened then initrd_fail True files sz w1
            else
              (let (m, w2) = grub_efi_allocate_pages_max 0x3fffffff (BYTES_TO_PAGES sz) w1;
                   w3 = w2\<lparr>initrd_mem := m\<rparr>
               in if m = 0
                  then initrd_fail True files sz
                         (grub_error GRUB_ERR_OUT_OF_MEMORY ''can't allocate initrd'' w3)
                  else if params w3 = 0 then fault w3
                  else
                    (let w4 = w3\<lparr>pmem := (pmem w3)(params w3 :=
                                 (pmem w3 (params w3))\<lparr>ramdisk_size := ucast sz\<rparr>)\<rparr>;
                         w5 = w4\<lparr>pmem := (pmem w4)(params w4 :=
                                 (pmem w4 (params w4))\<lparr>ramdisk_image := ucast m\<rparr>)\<rparr>;
                         (ok, w6) = initrd_read_files files m w5
                     in if \<not> ok then initrd_fail True files sz w6
                        else initrd_fail True files sz
                               (w6\<lparr>pmem := (pmem w6)(params w6 :=
                                      (pmem w6 (params w6))\<lparr>ramdisk_size := ucast sz\<rparr>)\<rparr>)))))"

subsection \<open>Loading the kernel (lines 200 to 359)\<close>

text \<open>
  The kernel file as the file layer presents it: the size \<open>grub_file_size\<close> reports, the
  value \<open>grub_file_read\<close> returns when asked for that many bytes, and the header that the
  copy of line 256 finds at the start of the buffer.
\<close>

record kernel_file =
  k_size :: "64 word"
  k_read :: "64 word"
  k_header :: linux_kernel_header

text \<open>
  What one invocation of the command meets: its arguments, whether the file opens
  (otherwise the error the file layer leaves in \<open>grub_errno\<close>), whether \<open>grub_malloc\<close>
  succeeds, the firmware's trust state, the indeterminate content of the local \<open>lh\<close>
  before line 256 fills it, and the macro \<open>GRUB_LINUX_MAX_SETUP_SECTS\<close> of
  grub/cpu/linux.h, which is not part of the sources at hand and is therefore a parameter.
\<close>

record linux_env =
  argv :: "string list"
  file_open :: "grub_err_t + kernel_file"
  malloc_ok :: bool
  platform :: efi_platform
  stack_lh :: linux_kernel_header
  GRUB_LINUX_MAX_SETUP_SECTS :: nat

text \<open>The locals that the code after the label \<open>fail\<close> reads.\<close>

record linux_locals =
  l_file :: bool
  l_kernel :: bool
  l_lh :: linux_kernel_header

text \<open>
  Lines 304 to 330: place the kernel, copy the payload, register the loader, finish the
  header. Line 305 computes \<open>len\<close> as the file size minus \<open>start\<close>. For a file shorter
  than its setup sectors the difference is negative, line 320 hands it to \<open>grub_memcpy\<close>
  as a size close to 2^64, and the copy leaves every mapped region: a fault, after which
  nothing runs. The three stages return the world, the local \<open>lh\<close> and whether the
  machine has faulted in them.
\<close>

definition linux_load_kernel ::
  "kernel_file \<Rightarrow> linux_kernel_header \<Rightarrow> world
     \<Rightarrow> world \<times> linux_kernel_header \<times> bool" where
  "linux_load_kernel img lh0 w0 =
     (let start = (ucast (setup_sects lh0) + 1) * 512;
          len = k_size img - start;
          (m1, w1) = grub_efi_allocate_pages (pref_address lh0)
                       (ucast (BYTES_TO_PAGES (init_size lh0))) w0;
          w2 = w1\<lparr>kernel_mem := m1\<rparr>;
          (m2, w3) = (if m1 = 0
                      then grub_efi_allocate_pages_max 0x3fffffff
                             (ucast (BYTES_TO_PAGES (init_size lh0))) w2
                      else (m1, w2));
          w4 = w3\<lparr>kernel_mem := m2\<rparr>
      in if m2 = 0
         then (grub_error GRUB_ERR_OUT_OF_MEMORY ''can't allocate kernel'' w4, lh0, False)
         else
           (let w5 = log (Copy_kernel m2 start len) w4
            in if k_size img < start then (fault w5, lh0, True)
               else
                 (let w6 = log Loader_set w5;
                      w7 = log (Store_loaded True) (w6\<lparr>loaded := True\<rparr>);
                      lh1 = lh0\<lparr>code32_start := ucast m2\<rparr>;
                      w8 = log (Copy_header (params w7) lh1)
                             (w7\<lparr>pmem := (pmem w7)(params w7 := lh1)\<rparr>);
                      w9 = log (Store_loader_type (params w8) 0x21)
                             (w8\<lparr>pmem := (pmem w8)(params w8 :=
                                    (pmem w8 (params w8))\<lparr>type_of_loader := 0x21\<rparr>)\<rparr>)
                  in (w9, lh1, False))))"

text \<open>Lines 282 to 302: the command line buffer.\<close>

definition linux_load_cmdline ::
  "kernel_file \<Rightarrow> linux_kernel_header \<Rightarrow> world
     \<Rightarrow> world \<times> linux_kernel_header \<times> bool" where
  "linux_load_cmdline img lh0 w0 =
     (let (c, w1) = grub_efi_allocate_pages_max 0x3fffffff
                      (ucast (BYTES_TO_PAGES (cmdline_size lh0 + 1))) w0;
          w2 = w1\<lparr>linux_cmdline := c\<rparr>
      in if c = 0
         then (grub_error GRUB_ERR_OUT_OF_MEMORY ''can't allocate cmdline'' w2, lh0, False)
         else
           (let w3 = log (Cmdline_built c) w2;
                lh1 = lh0\<lparr>cmd_line_ptr := ucast c\<rparr>;
                w4 = w3\<lparr>handover_offset_var := handover_offset lh1\<rparr>
            in linux_load_kernel img lh1 w4))"

text \<open>Lines 246 to 280: the parameter block, then the checks of the header.\<close>

definition linux_load_params ::
  "linux_env \<Rightarrow> kernel_file \<Rightarrow> world \<Rightarrow> world \<times> linux_kernel_header \<times> bool" where
  "linux_load_params e img w0 =
     (let (p, w1) = grub_efi_allocate_pages_max 0x3fffffff
                      (ucast (BYTES_TO_PAGES (16384 :: 32 word))) w0;
          w2 = w1\<lparr>params := p\<rparr>
      in if p = 0
         then (grub_error GRUB_ERR_OUT_OF_MEMORY ''cannot allocate kernel parameters'' w2,
               stack_lh e, False)
         else
           (let w3 = log (Memset_params p) (w2\<lparr>pmem := (pmem w2)(p := zero_header)\<rparr>);
                lh0 = k_header img
            in if boot_flag lh0 \<noteq> 0xaa55
               then (grub_error GRUB_ERR_BAD_OS ''invalid magic number'' w3, lh0, False)
               else if unat (setup_sects lh0) > GRUB_LINUX_MAX_SETUP_SECTS e
               then (grub_error GRUB_ERR_BAD_OS ''too many setup sectors'' w3, lh0, False)
               else if version lh0 < 0x020b
               then (grub_error GRUB_ERR_BAD_OS ''kernel too old'' w3, lh0, False)
               else if handover_offset lh0 = 0
               then (grub_error GRUB_ERR_BAD_OS ''kernel doesn't support EFI handover'' w3,
                     lh0, False)
               else linux_load_cmdline img lh0 w3))"

text \<open>The code after the label \<open>fail\<close> (lines 332 to 358).\<close>

definition linux_fail :: "linux_locals \<Rightarrow> world \<Rightarrow> world" where
  "linux_fail l w0 =
     (let w1 = (if l_file l then log File_close w0 else w0);
          w2 = (if l_kernel l then log Kernel_free w1 else w1);
          w3 = (if grub_errno w2 \<noteq> GRUB_ERR_NONE
                then log (Store_loaded False) ((log Dl_unref w2)\<lparr>loaded := False\<rparr>)
                else w2);
          w4 = (if linux_cmdline w3 \<noteq> 0 \<and> \<not> loaded w3
                then grub_efi_free_pages (linux_cmdline w3)
                       (ucast (BYTES_TO_PAGES (cmdline_size (l_lh l) + 1))) w3
                else w3);
          w5 = (if kernel_mem w4 \<noteq> 0 \<and> \<not> loaded w4
                then grub_efi_free_pages (kernel_mem w4) (BYTES_TO_PAGES (kernel_size w4)) w4
                else w4);
          w6 = (if params w5 \<noteq> 0 \<and> \<not> loaded w5
                then grub_efi_free_pages (params w5) (ucast (BYTES_TO_PAGES (16384 :: 32 word))) w5
                else w5)
      in w6)"

text \<open>
  Lines 209 to 244, then the stages above, then the code after \<open>fail\<close>, which a
  faulted machine does not reach. The value the C function returns is \<open>grub_errno\<close> of
  the resulting world.
\<close>

definition grub_cmd_linux :: "linux_env \<Rightarrow> world \<Rightarrow> world" where
  "grub_cmd_linux e w0 =
     (let w1 = log Dl_ref w0;
          l0 = \<lparr> l_file = False, l_kernel = False, l_lh = stack_lh e \<rparr>
      in case argv e of
           [] \<Rightarrow> linux_fail l0 (grub_error GRUB_ERR_BAD_ARGUMENT ''filename expected'' w1)
         | name # _ \<Rightarrow>
             (case file_open e of
                Inl err \<Rightarrow> linux_fail l0 (file_layer_error err w1)
              | Inr img \<Rightarrow>
                  (let w2 = log File_open w1;
                       l1 = l0\<lparr>l_file := True\<rparr>
                   in if \<not> malloc_ok e
                      then linux_fail l1
                             (grub_error GRUB_ERR_OUT_OF_MEMORY ''cannot allocate kernel buffer'' w2)
                      else
                        (let w3 = log Kernel_malloc w2;
                             l2 = l1\<lparr>l_kernel := True\<rparr>
                         in if k_read img \<noteq> k_size img
                            then linux_fail l2
                                   (grub_error GRUB_ERR_FILE_READ_ERROR
                                      (''Can't read kernel '' @ name) w3)
                            else
                              (let w4 = log (Tpm_measure_kernel (k_size img)) w3;
                                   v = grub_linuxefi_secure_validate (platform e);
                                   w5 = log (Secure_validate v) w4
                               in if \<not> v
                                  then linux_fail l2
                                         (log Kernel_free
                                            (grub_error GRUB_ERR_INVALID_COMMAND
                                               (name @ '' has invalid signature'') w5))
                                  else
                                    (let (w6, lh1, crashed) = linux_load_params e img w5
                                     in if crashed then w6
                                        else linux_fail (l2\<lparr>l_lh := lh1\<rparr>) w6))))))"

subsection \<open>Sequences of commands\<close>

text \<open>The dispatcher runs one command after the other; a faulted machine runs nothing.\<close>

datatype command = Cmd_linux linux_env | Cmd_initrd initrd_env | Boot | Unload

fun dispatch :: "command \<Rightarrow> world \<Rightarrow> world" where
  "dispatch (Cmd_linux e) w = grub_cmd_linux e w"
| "dispatch (Cmd_initrd e) w = grub_cmd_initrd e w"
| "dispatch Boot w = grub_linuxefi_boot w"
| "dispatch Unload w = grub_linuxefi_unload w"

definition exec :: "command \<Rightarrow> world \<Rightarrow> world" where
  "exec c w = (if faulted w then w else dispatch c w)"

definition run :: "command list \<Rightarrow> world \<Rightarrow> world" where
  "run cmds w = fold exec cmds w"

subsection \<open>Reading the event log\<close>

fun is_page_alloc :: "event \<Rightarrow> bool" where
  "is_page_alloc (Allocate_pages_max mx n r) = True"
| "is_page_alloc (Allocate_pages a n r) = True"
| "is_page_alloc _ = False"

fun allocates :: "addr \<Rightarrow> event \<Rightarrow> bool" where
  "allocates a (Allocate_pages_max mx n r) = (r = a \<and> r \<noteq> 0)"
| "allocates a (Allocate_pages b n r) = (r = a \<and> r \<noteq> 0)"
| "allocates a _ = False"

fun is_page_free :: "event \<Rightarrow> bool" where
  "is_page_free (Free_pages a n) = True"
| "is_page_free _ = False"

fun frees :: "addr \<Rightarrow> event \<Rightarrow> bool" where
  "frees a (Free_pages b n) = (b = a)"
| "frees a _ = False"

definition outstanding :: "event list \<Rightarrow> addr \<Rightarrow> int" where
  "outstanding tr a = int (length (filter (allocates a) tr)) - int (length (filter (frees a) tr))"

text \<open>
  The order that verification must keep: when \<open>Secure_validate\<close> appears in a log, the
  whole file has been measured before and no firmware page has been requested yet. The
  two flags say whether a measurement and a page request have been seen so far.
\<close>

fun is_measure :: "event \<Rightarrow> bool" where
  "is_measure (Tpm_measure_kernel n) = True"
| "is_measure _ = False"

fun is_validate :: "event \<Rightarrow> bool" where
  "is_validate (Secure_validate v) = True"
| "is_validate _ = False"

fun verify_ordered :: "bool \<Rightarrow> bool \<Rightarrow> event list \<Rightarrow> bool" where
  "verify_ordered m a [] = True"
| "verify_ordered m a (e # es) =
     (if is_validate e then m \<and> \<not> a \<and> verify_ordered m a es
      else verify_ordered (m \<or> is_measure e) (a \<or> is_page_alloc e) es)"

text \<open>
  Two orders for the store \<open>loaded = 1\<close>. In the first, the one of the spec, the header
  has been copied into the parameter block and the loader type has been set before the
  flag is stored (the flags say which of the two have been seen). In the second, the one
  of lines 307 to 330, the three events before the store are a page allocation that
  succeeded, the copy of the payload to the address it returned and the registration of
  the loader, and the two events after it are the copy of the header and the store of
  the loader type 0x21 into the same block. \<open>hist\<close> holds the events seen so far, the
  latest first.
\<close>

fun is_copy_header :: "event \<Rightarrow> bool" where
  "is_copy_header (Copy_header p h) = True"
| "is_copy_header _ = False"

fun is_store_loader_type :: "event \<Rightarrow> bool" where
  "is_store_loader_type (Store_loader_type p x) = True"
| "is_store_loader_type _ = False"

fun flag_after_header :: "bool \<Rightarrow> bool \<Rightarrow> event list \<Rightarrow> bool" where
  "flag_after_header c t [] = True"
| "flag_after_header c t (e # es) =
     (if e = Store_loaded True then c \<and> t \<and> flag_after_header c t es
      else flag_after_header (c \<or> is_copy_header e) (t \<or> is_store_loader_type e) es)"

definition kernel_placed :: "event list \<Rightarrow> bool" where
  "kernel_placed hist =
     (case hist of
        Loader_set # Copy_kernel k start len # a # _ \<Rightarrow> allocates k a
      | _ \<Rightarrow> False)"

definition header_next :: "event list \<Rightarrow> bool" where
  "header_next es =
     (case es of
        Copy_header p h # Store_loader_type q x # _ \<Rightarrow> p = q \<and> x = 0x21
      | _ \<Rightarrow> False)"

fun flag_in_order :: "event list \<Rightarrow> event list \<Rightarrow> bool" where
  "flag_in_order hist [] = True"
| "flag_in_order hist (e # es) =
     ((if e = Store_loaded True then kernel_placed hist \<and> header_next es else True)
      \<and> flag_in_order (e # hist) es)"

text \<open>
  The total that the spec gives for the ramdisk buffer, the sum of the sizes each rounded
  up to a multiple of 4, as a natural number; and the value the first loop leaves in the
  local \<open>size\<close>, computed in 64 bits.
\<close>

definition spec_initrd_size :: "grub_file list \<Rightarrow> nat" where
  "spec_initrd_size fs = sum_list (map (\<lambda>f. (unat (file_size f) + 3) div 4 * 4) fs)"

definition initrd_total :: "grub_file list \<Rightarrow> 64 word" where
  "initrd_total fs = sum_list (map (\<lambda>f. ALIGN_UP (file_size f) 4) fs)"

text \<open>
  The padding of every segment is zero: with the segments laid out from \<open>ptr\<close> on, the
  bytes between the end of each file and the next multiple of 4 are 0.
\<close>

fun padding_zeroed :: "(addr \<Rightarrow> 8 word) \<Rightarrow> addr \<Rightarrow> grub_file list \<Rightarrow> bool" where
  "padding_zeroed m ptr [] = True"
| "padding_zeroed m ptr (f # fs) =
     ((\<forall>k \<in> {0 ..< unat (ALIGN_UP_OVERHEAD (file_size f) 4)}.
          m (ptr + file_size f + of_nat k) = 0)
      \<and> padding_zeroed m (ptr + ALIGN_UP (file_size f) 4) fs)"

subsection \<open>The scenarios of the spec\<close>

text \<open>
  The image of the spec's scenarios: magic 0xAA55, four setup sectors, EFI handover entry
  at 0x1e0, and the protocol version as a parameter. It asks for a command line of 2047
  bytes and 0x2000 bytes of kernel memory at 16 MiB. The file has 8 KiB and is read
  completely; its payload, the 5632 bytes after the five sectors of the setup, fits the
  kernel memory.
\<close>

definition scenario_header :: "16 word \<Rightarrow> linux_kernel_header" where
  "scenario_header v = \<lparr> setup_sects = 4, boot_flag = 0xaa55, version = v, type_of_loader = 0,
     code32_start = 0, ramdisk_image = 0, ramdisk_size = 0, cmd_line_ptr = 0,
     cmdline_size = 0x7ff, pref_address = 0x1000000, init_size = 0x2000,
     handover_offset = 0x1e0 \<rparr>"

definition no_shim :: efi_platform where
  "no_shim = \<lparr> shim_lock = None, secure_boot = False \<rparr>"

definition no_shim_secure_boot :: efi_platform where
  "no_shim_secure_boot = \<lparr> shim_lock = None, secure_boot = True \<rparr>"

definition scenario_env :: "linux_kernel_header \<Rightarrow> efi_platform \<Rightarrow> linux_env" where
  "scenario_env h p = \<lparr> argv = [''vmlinuz''],
     file_open = Inr \<lparr> k_size = 0x2000, k_read = 0x2000, k_header = h \<rparr>,
     malloc_ok = True, platform = p, stack_lh = zero_header,
     GRUB_LINUX_MAX_SETUP_SECTS = 64 \<rparr>"

text \<open>Two ramdisk files of 10 and 3 bytes; in the second variant the last file ends early.\<close>

definition two_files :: initrd_env where
  "two_files = \<lparr> initrd_argv =
       [Inr \<lparr> file_name = ''initrd.img'', file_size = 10,
              file_read = Read_bytes [1, 2, 3, 4, 5, 6, 7, 8, 9, 10] \<rparr>,
        Inr \<lparr> file_name = ''extra.img'', file_size = 3, file_read = Read_bytes [1, 2, 3] \<rparr>],
     zalloc_ok = True \<rparr>"

definition two_files_short :: initrd_env where
  "two_files_short = \<lparr> initrd_argv =
       [Inr \<lparr> file_name = ''initrd.img'', file_size = 10,
              file_read = Read_bytes [1, 2, 3, 4, 5, 6, 7, 8, 9, 10] \<rparr>,
        Inr \<lparr> file_name = ''extra.img'', file_size = 3, file_read = Read_bytes [1, 2] \<rparr>],
     zalloc_ok = True \<rparr>"

text \<open>
  The events of lines 209 to 239 when the file opens, the buffer is allocated and the
  file is read completely: up to and including the verification.
\<close>

definition read_prefix :: "linux_env \<Rightarrow> kernel_file \<Rightarrow> event list" where
  "read_prefix e img = [Dl_ref, File_open, Kernel_malloc, Tpm_measure_kernel (k_size img),
      Secure_validate (grub_linuxefi_secure_validate (platform e))]"

text \<open>
  The world after the scenario's image with version 0x020b has been loaded from the
  initial state, the firmware answering 0x100000 and 0x200000 to the two requests below
  the ceiling and granting the request at 16 MiB.
\<close>

definition scenario_loaded :: "addr list \<Rightarrow> world" where
  "scenario_loaded rest = \<lparr> loaded = True, kernel_mem = 0x1000000, kernel_size = 0, initrd_mem = 0,
     handover_offset_var = 0x1e0, params = 0x100000, linux_cmdline = 0x200000,
     grub_errno = GRUB_ERR_NONE, errmsg = [],
     pmem = (\<lambda>_. zero_header)(0x100000 := (scenario_header 0x020b)
               \<lparr>type_of_loader := 0x21, code32_start := 0x1000000, cmd_line_ptr := 0x200000\<rparr>),
     bmem = (\<lambda>_. 0), alloc_answers = rest,
     trace = [Dl_ref, File_open, Kernel_malloc, Tpm_measure_kernel 0x2000,
           Secure_validate True, Allocate_pages_max 0x3fffffff 4 0x100000,
           Memset_params 0x100000, Allocate_pages_max 0x3fffffff 1 0x200000,
           Cmdline_built 0x200000, Allocate_pages 0x1000000 2 0x1000000,
           Copy_kernel 0x1000000 2560 5632, Loader_set, Store_loaded True,
           Copy_header 0x100000 ((scenario_header 0x020b)
               \<lparr>code32_start := 0x1000000, cmd_line_ptr := 0x200000\<rparr>),
           Store_loader_type 0x100000 0x21, File_close, Kernel_free],
     faulted = False \<rparr>"

section \<open>Properties\<close>

subsection \<open>Auxiliary lemmas\<close>

lemma events_since_append: "trace w' = trace w @ ys \<Longrightarrow> events_since w w' = ys"
  by (simp add: events_since_def)

lemma linux_fail_fields:
  "grub_errno (linux_fail l w) = grub_errno w"
  "errmsg (linux_fail l w) = errmsg w"
  "params (linux_fail l w) = params w"
  "kernel_mem (linux_fail l w) = kernel_mem w"
  "linux_cmdline (linux_fail l w) = linux_cmdline w"
  "initrd_mem (linux_fail l w) = initrd_mem w"
  "pmem (linux_fail l w) = pmem w"
  "faulted (linux_fail l w) = faulted w"
  "loaded (linux_fail l w) = (loaded w \<and> grub_errno w = GRUB_ERR_NONE)"
  by (simp_all add: linux_fail_def grub_efi_free_pages_def log_def Let_def)

lemma linux_fail_trace:
  "trace (linux_fail l w) = trace w
     @ (if l_file l then [File_close] else [])
     @ (if l_kernel l then [Kernel_free] else [])
     @ (if grub_errno w \<noteq> GRUB_ERR_NONE then [Dl_unref, Store_loaded False] else [])
     @ (if linux_cmdline w \<noteq> 0 \<and> \<not> (loaded w \<and> grub_errno w = GRUB_ERR_NONE)
        then [Free_pages (linux_cmdline w) (ucast (BYTES_TO_PAGES (cmdline_size (l_lh l) + 1)))]
        else [])
     @ (if kernel_mem w \<noteq> 0 \<and> \<not> (loaded w \<and> grub_errno w = GRUB_ERR_NONE)
        then [Free_pages (kernel_mem w) (BYTES_TO_PAGES (kernel_size w))] else [])
     @ (if params w \<noteq> 0 \<and> \<not> (loaded w \<and> grub_errno w = GRUB_ERR_NONE)
        then [Free_pages (params w) 4] else [])"
  by (simp add: linux_fail_def grub_efi_free_pages_def log_def Let_def BYTES_TO_PAGES_def)

lemma verify_ordered_append:
  "\<forall>x\<in>set ys. \<not> is_validate x \<Longrightarrow> verify_ordered m a (xs @ ys) = verify_ordered m a xs"
proof (induction xs arbitrary: m a)
  case Nil
  then show ?case by (induction ys arbitrary: m a) auto
next
  case (Cons x xs)
  then show ?case by simp
qed

lemma header_next_append: "header_next es \<Longrightarrow> header_next (es @ ys)"
  by (auto simp: header_next_def split: list.splits event.splits)

lemma flag_in_order_clean: "Store_loaded True \<notin> set ys \<Longrightarrow> flag_in_order hist ys"
  by (induction ys arbitrary: hist) auto

lemma flag_in_order_append:
  "flag_in_order hist xs \<Longrightarrow> Store_loaded True \<notin> set ys \<Longrightarrow> flag_in_order hist (xs @ ys)"
proof (induction xs arbitrary: hist)
  case Nil
  then show ?case by (simp add: flag_in_order_clean)
next
  case (Cons x xs)
  then show ?case by (auto simp: header_next_append)
qed

lemma flag_in_order_prepend:
  "Store_loaded True \<notin> set xs \<Longrightarrow> flag_in_order hist (xs @ ys) = flag_in_order (rev xs @ hist) ys"
  by (induction xs arbitrary: hist) auto

lemma ex_rev_eq: "(\<exists>r. xs = rev r \<and> P r) = P (rev xs)"
  by (metis rev_rev_ident)

lemmas alloc_defs = grub_efi_allocate_pages_max_def grub_efi_allocate_pages_def log_def
  grub_error_def fault_def

lemma linux_load_kernel_summary:
  assumes "linux_load_kernel img lh w = (w1, lh1, cr)"
  shows "\<exists>ys. trace w1 = trace w @ ys
       \<and> (\<forall>x\<in>set ys. \<not> is_validate x \<and> \<not> is_measure x)
       \<and> (\<forall>hist. flag_in_order hist ys)
       \<and> (Store_loaded True \<in> set ys \<longrightarrow>
            \<not> cr \<and> loaded w1 \<and> grub_errno w1 = grub_errno w \<and> kernel_mem w1 \<noteq> 0
          \<and> faulted w1 = faulted w
          \<and> linux_cmdline w1 = linux_cmdline w \<and> params w1 = params w
          \<and> pmem w1 (params w1) = lh\<lparr>code32_start := ucast (kernel_mem w1), type_of_loader := 0x21\<rparr>
          \<and> Copy_kernel (kernel_mem w1) ((ucast (setup_sects lh) + 1) * 512)
                (k_size img - (ucast (setup_sects lh) + 1) * 512) \<in> set ys
          \<and> Copy_header (params w1) (lh\<lparr>code32_start := ucast (kernel_mem w1)\<rparr>) \<in> set ys
          \<and> (\<exists>a rest. rev ys =
                 Store_loader_type (params w1) 0x21
                 # Copy_header (params w1) (lh\<lparr>code32_start := ucast (kernel_mem w1)\<rparr>)
                 # Store_loaded True # Loader_set
                 # Copy_kernel (kernel_mem w1) ((ucast (setup_sects lh) + 1) * 512)
                     (k_size img - (ucast (setup_sects lh) + 1) * 512)
                 # a # rest
               \<and> allocates (kernel_mem w1) a \<and> Store_loaded True \<notin> set rest))"
  using assms
  by (auto simp: linux_load_kernel_def alloc_defs Let_def header_next_def kernel_placed_def
           split: list.splits if_splits)

lemma linux_load_cmdline_summary:
  assumes "linux_load_cmdline img lh w = (w1, lh1, cr)"
  shows "\<exists>ys. trace w1 = trace w @ ys
       \<and> (\<forall>x\<in>set ys. \<not> is_validate x \<and> \<not> is_measure x)
       \<and> (\<forall>hist. flag_in_order hist ys)
       \<and> (Store_loaded True \<in> set ys \<longrightarrow>
            \<not> cr \<and> loaded w1 \<and> grub_errno w1 = grub_errno w \<and> kernel_mem w1 \<noteq> 0
          \<and> faulted w1 = faulted w
          \<and> params w1 = params w
          \<and> pmem w1 (params w1) = lh\<lparr>cmd_line_ptr := ucast (linux_cmdline w1),
                 code32_start := ucast (kernel_mem w1), type_of_loader := 0x21\<rparr>
          \<and> Copy_kernel (kernel_mem w1) ((ucast (setup_sects lh) + 1) * 512)
                (k_size img - (ucast (setup_sects lh) + 1) * 512) \<in> set ys
          \<and> Copy_header (params w1) (lh\<lparr>cmd_line_ptr := ucast (linux_cmdline w1),
                 code32_start := ucast (kernel_mem w1)\<rparr>) \<in> set ys
          \<and> (\<exists>a rest. rev ys =
                 Store_loader_type (params w1) 0x21
                 # Copy_header (params w1) (lh\<lparr>cmd_line_ptr := ucast (linux_cmdline w1),
                     code32_start := ucast (kernel_mem w1)\<rparr>)
                 # Store_loaded True # Loader_set
                 # Copy_kernel (kernel_mem w1) ((ucast (setup_sects lh) + 1) * 512)
                     (k_size img - (ucast (setup_sects lh) + 1) * 512)
                 # a # rest
               \<and> allocates (kernel_mem w1) a \<and> Store_loaded True \<notin> set rest))"
  using assms
  by (auto simp: linux_load_cmdline_def alloc_defs Let_def ex_rev_eq split: list.splits if_splits
           dest!: linux_load_kernel_summary)

lemma linux_load_params_summary:
  assumes "linux_load_params e img w = (w1, lh1, cr)"
  shows "\<exists>ys. trace w1 = trace w @ ys
       \<and> (\<forall>x\<in>set ys. \<not> is_validate x \<and> \<not> is_measure x)
       \<and> (\<forall>hist. flag_in_order hist ys)
       \<and> (Store_loaded True \<in> set ys \<longrightarrow>
            \<not> cr \<and> loaded w1 \<and> grub_errno w1 = grub_errno w \<and> kernel_mem w1 \<noteq> 0
          \<and> faulted w1 = faulted w
          \<and> pmem w1 (params w1) = (k_header img)\<lparr>cmd_line_ptr := ucast (linux_cmdline w1),
                 code32_start := ucast (kernel_mem w1), type_of_loader := 0x21\<rparr>
          \<and> Copy_kernel (kernel_mem w1) ((ucast (setup_sects (k_header img)) + 1) * 512)
                (k_size img - (ucast (setup_sects (k_header img)) + 1) * 512) \<in> set ys
          \<and> Copy_header (params w1) ((k_header img)\<lparr>cmd_line_ptr := ucast (linux_cmdline w1),
                 code32_start := ucast (kernel_mem w1)\<rparr>) \<in> set ys
          \<and> (\<exists>a rest. rev ys =
                 Store_loader_type (params w1) 0x21
                 # Copy_header (params w1) ((k_header img)\<lparr>cmd_line_ptr := ucast (linux_cmdline w1),
                     code32_start := ucast (kernel_mem w1)\<rparr>)
                 # Store_loaded True # Loader_set
                 # Copy_kernel (kernel_mem w1) ((ucast (setup_sects (k_header img)) + 1) * 512)
                     (k_size img - (ucast (setup_sects (k_header img)) + 1) * 512)
                 # a # rest
               \<and> allocates (kernel_mem w1) a \<and> Store_loaded True \<notin> set rest))"
  using assms
  by (auto simp: linux_load_params_def alloc_defs Let_def ex_rev_eq split: list.splits if_splits
           dest!: linux_load_cmdline_summary)

lemma linux_load_params_events:
  "\<exists>ys. trace (fst (linux_load_params e img w)) = trace w @ ys
       \<and> (\<forall>x\<in>set ys. \<not> is_validate x \<and> \<not> is_measure x)
       \<and> (\<forall>hist. flag_in_order hist ys)
       \<and> (Store_loaded True \<in> set ys \<longrightarrow>
            \<not> snd (snd (linux_load_params e img w))
          \<and> loaded (fst (linux_load_params e img w))
          \<and> grub_errno (fst (linux_load_params e img w)) = grub_errno w
          \<and> kernel_mem (fst (linux_load_params e img w)) \<noteq> 0
          \<and> faulted (fst (linux_load_params e img w)) = faulted w
          \<and> pmem (fst (linux_load_params e img w)) (params (fst (linux_load_params e img w))) =
              (k_header img)\<lparr>cmd_line_ptr := ucast (linux_cmdline (fst (linux_load_params e img w))),
                 code32_start := ucast (kernel_mem (fst (linux_load_params e img w))),
                 type_of_loader := 0x21\<rparr>
          \<and> Copy_kernel (kernel_mem (fst (linux_load_params e img w)))
                ((ucast (setup_sects (k_header img)) + 1) * 512)
                (k_size img - (ucast (setup_sects (k_header img)) + 1) * 512) \<in> set ys
          \<and> Copy_header (params (fst (linux_load_params e img w)))
                ((k_header img)\<lparr>cmd_line_ptr := ucast (linux_cmdline (fst (linux_load_params e img w))),
                 code32_start := ucast (kernel_mem (fst (linux_load_params e img w)))\<rparr>) \<in> set ys)"
  using linux_load_params_summary [of e img w "fst (linux_load_params e img w)"
      "fst (snd (linux_load_params e img w))" "snd (snd (linux_load_params e img w))"]
  by simp blast

lemma linux_load_params_window:
  assumes "trace (fst (linux_load_params e img w)) = trace w @ ys" "Store_loaded True \<in> set ys"
  shows "\<exists>pre a. ys = pre @
            [a,
             Copy_kernel (kernel_mem (fst (linux_load_params e img w)))
               ((ucast (setup_sects (k_header img)) + 1) * 512)
               (k_size img - (ucast (setup_sects (k_header img)) + 1) * 512),
             Loader_set, Store_loaded True,
             Copy_header (params (fst (linux_load_params e img w)))
               ((k_header img)\<lparr>cmd_line_ptr := ucast (linux_cmdline (fst (linux_load_params e img w))),
                  code32_start := ucast (kernel_mem (fst (linux_load_params e img w)))\<rparr>),
             Store_loader_type (params (fst (linux_load_params e img w))) 0x21]
          \<and> allocates (kernel_mem (fst (linux_load_params e img w))) a
          \<and> Store_loaded True \<notin> set pre"
proof -
  let ?w1 = "fst (linux_load_params e img w)"
  let ?S = "(ucast (setup_sects (k_header img)) + 1) * 512 :: 64 word"
  let ?H = "(k_header img)\<lparr>cmd_line_ptr := ucast (linux_cmdline ?w1),
               code32_start := ucast (kernel_mem ?w1)\<rparr>"
  from linux_load_params_summary [of e img w ?w1 "fst (snd (linux_load_params e img w))"
      "snd (snd (linux_load_params e img w))"]
  obtain ys' where tr: "trace ?w1 = trace w @ ys'"
    and win: "Store_loaded True \<in> set ys' \<longrightarrow>
       (\<exists>a rest. rev ys' = Store_loader_type (params ?w1) 0x21 # Copy_header (params ?w1) ?H
            # Store_loaded True # Loader_set # Copy_kernel (kernel_mem ?w1) ?S (k_size img - ?S)
            # a # rest
          \<and> allocates (kernel_mem ?w1) a \<and> Store_loaded True \<notin> set rest)"
    by auto
  from tr assms(1) have "ys' = ys" by simp
  with win assms(2) obtain a rest where
    r: "rev ys = Store_loader_type (params ?w1) 0x21 # Copy_header (params ?w1) ?H
            # Store_loaded True # Loader_set # Copy_kernel (kernel_mem ?w1) ?S (k_size img - ?S)
            # a # rest"
    and a: "allocates (kernel_mem ?w1) a" and n: "Store_loaded True \<notin> set rest"
    by blast
  from r have "rev (rev ys) = rev (Store_loader_type (params ?w1) 0x21 # Copy_header (params ?w1) ?H
            # Store_loaded True # Loader_set # Copy_kernel (kernel_mem ?w1) ?S (k_size img - ?S)
            # a # rest)" by (rule arg_cong)
  then have "ys = rev rest @ [a, Copy_kernel (kernel_mem ?w1) ?S (k_size img - ?S), Loader_set,
      Store_loaded True, Copy_header (params ?w1) ?H, Store_loader_type (params ?w1) 0x21]"
    by simp
  moreover from n have "Store_loaded True \<notin> set (rev rest)" by simp
  ultimately show ?thesis using a by blast
qed

lemma grub_cmd_linux_read_ok:
  assumes "argv e = name # args" "file_open e = Inr img" "malloc_ok e" "k_read img = k_size img"
  shows "grub_cmd_linux e w =
    (if \<not> grub_linuxefi_secure_validate (platform e)
     then linux_fail \<lparr>l_file = True, l_kernel = True, l_lh = stack_lh e\<rparr>
            (w\<lparr>grub_errno := GRUB_ERR_INVALID_COMMAND, errmsg := name @ '' has invalid signature'',
               trace := trace w @ read_prefix e img @ [Kernel_free]\<rparr>)
     else if snd (snd (linux_load_params e img (w\<lparr>trace := trace w @ read_prefix e img\<rparr>)))
     then fst (linux_load_params e img (w\<lparr>trace := trace w @ read_prefix e img\<rparr>))
     else linux_fail \<lparr>l_file = True, l_kernel = True,
                      l_lh = fst (snd (linux_load_params e img (w\<lparr>trace := trace w @ read_prefix e img\<rparr>)))\<rparr>
            (fst (linux_load_params e img (w\<lparr>trace := trace w @ read_prefix e img\<rparr>))))"
  by (simp add: grub_cmd_linux_def assms log_def grub_error_def Let_def split_def read_prefix_def)

lemma grub_cmd_linux_early:
  assumes "\<not> (\<exists>name args img. argv e = name # args \<and> file_open e = Inr img \<and> malloc_ok e \<and> k_read img = k_size img)"
  shows "\<forall>x\<in>set (events_since w (grub_cmd_linux e w)).
           \<not> is_validate x \<and> x \<noteq> Store_loaded True \<and> \<not> is_page_alloc x"
  using assms
  by (auto simp: grub_cmd_linux_def log_def grub_error_def file_layer_error_def Let_def
           events_since_def linux_fail_trace
           split: list.splits sum.splits if_splits)

lemma grub_cmd_linux_events:
  assumes "argv e = name # args" "file_open e = Inr img" "malloc_ok e" "k_read img = k_size img"
    and "grub_linuxefi_secure_validate (platform e)"
    and "trace (fst (linux_load_params e img (w\<lparr>trace := trace w @ read_prefix e img\<rparr>))) =
           trace (w\<lparr>trace := trace w @ read_prefix e img\<rparr>) @ ys"
  shows "\<exists>zs. events_since w (grub_cmd_linux e w) = read_prefix e img @ ys @ zs
            \<and> (\<forall>x\<in>set zs. \<not> is_validate x \<and> x \<noteq> Store_loaded True \<and> \<not> is_page_alloc x)"
  using assms(5,6)
  by (auto simp: grub_cmd_linux_read_ok [OF assms(1-4)] events_since_def linux_fail_trace)

lemma BYTES_TO_PAGES_16384: "ucast (BYTES_TO_PAGES (16384 :: 32 word)) = (4 :: 64 word)"
  by (simp add: BYTES_TO_PAGES_def)


lemma unat_BYTES_TO_PAGES:
  fixes x :: "'a::len word"
  assumes "unat x + 4095 < 2 ^ LENGTH('a)"
  shows "unat (BYTES_TO_PAGES x) = (unat x + 4095) div 4096"
proof -
  have t: "take_bit LENGTH('a) (4095::nat) = 4095"
    using assms by (simp add: take_bit_nat_eq_self)
  then have "unat x + unat (0xfff :: 'a word) < 2 ^ LENGTH('a)"
    using assms by simp
  then have "unat (x + 0xfff) = unat x + unat (0xfff :: 'a word)"
    by (simp only: unat_add_lem)
  then have a: "unat (x + 0xfff) = unat x + 4095"
    using t by simp
  have "unat (drop_bit 12 (x + 0xfff)) = drop_bit 12 (unat (x + 0xfff))"
    by (rule unat_drop_bit_eq)
  also have "\<dots> = unat (x + 0xfff) div 2 ^ 12"
    by (rule drop_bit_eq_div)
  finally show ?thesis
    unfolding BYTES_TO_PAGES_def a by simp
qed

lemmas eval_defs = grub_cmd_linux_def linux_fail_def linux_load_params_def linux_load_cmdline_def
  linux_load_kernel_def grub_efi_allocate_pages_max_def grub_efi_allocate_pages_def
  grub_efi_free_pages_def grub_error_def file_layer_error_def log_def fault_def exec_def
  grub_linuxefi_secure_validate_def grub_linuxefi_unload_def BYTES_TO_PAGES_def
  init_world_def zero_header_def Let_def scenario_header_def scenario_env_def no_shim_def
  no_shim_secure_boot_def scenario_loaded_def outstanding_def events_since_def

lemma scenario_load:
  "grub_cmd_linux (scenario_env (scenario_header 0x020b) no_shim)
     (init_world (0x100000 # 0x200000 # 1 # rest)) = scenario_loaded rest"
  by (simp add: eval_defs cong: let_weak_cong)

lemma exec_init: "exec c (init_world xs) = dispatch c (init_world xs)"
  by (simp add: exec_def init_world_def)

lemma fold_log_File_close:
  "fold (\<lambda>_. log File_close) fs w = w\<lparr>trace := trace w @ replicate (length fs) File_close\<rparr>"
proof (induction fs arbitrary: w)
  case Nil
  then show ?case by simp
next
  case (Cons f fs)
  then show ?case by (simp add: log_def replicate_app_Cons_same)
qed

lemma initrd_fail_fields:
  "grub_errno (initrd_fail h fs sz w) = grub_errno w"
  "params (initrd_fail h fs sz w) = params w"
  "pmem (initrd_fail h fs sz w) = pmem w"
  "bmem (initrd_fail h fs sz w) = bmem w"
  "initrd_mem (initrd_fail h fs sz w) = initrd_mem w"
  "loaded (initrd_fail h fs sz w) = loaded w"
  "faulted (initrd_fail h fs sz w) = faulted w"
  by (simp_all add: initrd_fail_def fold_log_File_close grub_efi_free_pages_def log_def Let_def)

lemma initrd_fail_trace:
  "trace (initrd_fail True fs sz w) = trace w @ replicate (length fs) File_close @ [Files_free]
     @ (if initrd_mem w \<noteq> 0 \<and> grub_errno w \<noteq> GRUB_ERR_NONE
        then [Free_pages (initrd_mem w) (BYTES_TO_PAGES sz)] else [])"
  by (simp add: initrd_fail_def fold_log_File_close grub_efi_free_pages_def log_def Let_def)

lemma initrd_open_files_all:
  "initrd_open_files (map Inr fs) acc sz w =
     (True, acc @ fs, sz + initrd_total fs, w\<lparr>trace := trace w @ replicate (length fs) File_open\<rparr>)"
proof (induction fs arbitrary: acc sz w)
  case Nil
  then show ?case by (simp add: initrd_total_def)
next
  case (Cons f fs)
  then show ?case
    by (simp add: initrd_total_def log_def add.assoc replicate_app_Cons_same)
qed

lemma initrd_read_files_summary:
  "initrd_read_files fs ptr w = (ok, w') \<Longrightarrow>
     params w' = params w \<and> pmem w' = pmem w \<and> initrd_mem w' = initrd_mem w
   \<and> loaded w' = loaded w \<and> alloc_answers w' = alloc_answers w \<and> faulted w' = faulted w
   \<and> (\<exists>ys. trace w' = trace w @ ys \<and> (\<forall>x\<in>set ys. \<not> is_page_alloc x \<and> (\<forall>a. \<not> frees a x)))
   \<and> (\<not> ok \<longrightarrow> grub_errno w' \<noteq> GRUB_ERR_NONE)
   \<and> (grub_errno w \<noteq> GRUB_ERR_NONE \<longrightarrow> grub_errno w' \<noteq> GRUB_ERR_NONE)"
proof (induction fs arbitrary: ptr w)
  case Nil
  then show ?case by auto
next
  case (Cons f fs)
  show ?case
  proof (cases "fst (grub_file_read f ptr (file_size f) w) \<noteq> file_size f")
    case True
    with Cons.prems show ?thesis
      by (auto simp: Let_def split_def grub_file_read_def grub_error_def file_layer_error_def
              split: read_result.splits if_splits)
  next
    case False
    let ?w1 = "snd (grub_file_read f ptr (file_size f) w)"
    let ?w3 = "grub_memset (ptr + file_size f) 0 (ALIGN_UP_OVERHEAD (file_size f) 4)
                 (log (Tpm_measure_initrd ptr (file_size f)) ?w1)"
    from False Cons.prems have rec: "initrd_read_files fs
        (ptr + file_size f + ALIGN_UP_OVERHEAD (file_size f) 4) ?w3 = (ok, w')"
      by (simp add: Let_def split_def)
    have w3: "params ?w3 = params w" "pmem ?w3 = pmem w" "initrd_mem ?w3 = initrd_mem w"
      "loaded ?w3 = loaded w" "alloc_answers ?w3 = alloc_answers w" "faulted ?w3 = faulted w"
      "trace ?w3 = trace w @ [Tpm_measure_initrd ptr (file_size f)]"
      "grub_errno w \<noteq> GRUB_ERR_NONE \<longrightarrow> grub_errno ?w3 \<noteq> GRUB_ERR_NONE"
      by (auto simp: grub_memset_def log_def grub_file_read_def file_layer_error_def Let_def
               split: read_result.splits)
    from Cons.IH [OF rec] w3 show ?thesis by auto
  qed
qed

lemma allocate_pages_max_params:
  "params (snd (grub_efi_allocate_pages_max mx n w)) = params w"
  by (simp add: grub_efi_allocate_pages_max_def log_def Let_def split: list.splits)

lemma grub_cmd_initrd_unfold:
  assumes "initrd_argv e = map Inr fs" "fs \<noteq> []" "zalloc_ok e" "loaded w" "params w \<noteq> 0"
  shows "grub_cmd_initrd e w =
    (let (m, w2) = grub_efi_allocate_pages_max 0x3fffffff (BYTES_TO_PAGES (initrd_total fs))
                     (w\<lparr>trace := trace w @ Files_zalloc # replicate (length fs) File_open\<rparr>);
         w3 = w2\<lparr>initrd_mem := m\<rparr>
     in if m = 0
        then initrd_fail True fs (initrd_total fs)
               (grub_error GRUB_ERR_OUT_OF_MEMORY ''can't allocate initrd'' w3)
        else
          (let w5 = w3\<lparr>pmem := (pmem w3)(params w3 :=
                       (pmem w3 (params w3))\<lparr>ramdisk_size := ucast (initrd_total fs),
                                               ramdisk_image := ucast m\<rparr>)\<rparr>;
               (ok, w6) = initrd_read_files fs m w5
           in if \<not> ok then initrd_fail True fs (initrd_total fs) w6
              else initrd_fail True fs (initrd_total fs)
                     (w6\<lparr>pmem := (pmem w6)(params w6 :=
                            (pmem w6 (params w6))\<lparr>ramdisk_size := ucast (initrd_total fs)\<rparr>)\<rparr>)))"
  using assms
  by (simp add: grub_cmd_initrd_def initrd_open_files_all log_def Let_def split_def
        allocate_pages_max_params)

lemma and_3_eq: "(x :: 64 word) AND 3 = take_bit 2 x"
proof -
  have "(3 :: 64 word) = mask 2" by (simp add: mask_eq_exp_minus_1)
  then show ?thesis by (simp only: take_bit_eq_mask)
qed

lemma unat_and_3: "unat ((x :: 64 word) AND 3) = unat x mod 4"
proof -
  have "unat (take_bit 2 x) = take_bit 2 (unat x)" by (rule unsigned_take_bit_eq)
  also have "\<dots> = unat x mod 2 ^ 2" by (rule take_bit_eq_mod)
  finally show ?thesis by (simp only: and_3_eq) simp
qed

lemma and_minus_4_eq: "(x :: 64 word) AND - 4 = x - (x AND 3)"
proof -
  have n: "(- 4 :: 64 word) = NOT (mask 2)" by (simp add: mask_eq_exp_minus_1)
  have "push_bit 2 (drop_bit 2 x) = x AND NOT (mask 2)"
  proof (rule bit_eqI)
    fix n :: nat
    have "2 \<le> n \<Longrightarrow> 2 + (n - 2) = n" by simp
    then show "bit (push_bit 2 (drop_bit 2 x)) n = bit (x AND NOT (mask 2)) n"
      by (auto simp add: bit_push_bit_iff bit_drop_bit_eq bit_and_iff bit_not_iff bit_mask_iff
            dest: bit_imp_le_length)
  qed
  moreover have "push_bit 2 (drop_bit 2 x) + take_bit 2 x = x" by (rule bits_ident)
  ultimately have "x AND NOT (mask 2) = x - take_bit 2 x"
    by (metis add_diff_cancel_right')
  then show ?thesis by (simp only: n and_3_eq)
qed

lemma unat_and_minus_4: "unat ((x :: 64 word) AND - 4) = unat x - unat x mod 4"
proof -
  have "x AND 3 \<le> x" by (rule word_and_le2)
  then have "unat (x - (x AND 3)) = unat x - unat (x AND 3)" by (rule unat_sub)
  then show ?thesis by (simp only: and_minus_4_eq unat_and_3)
qed

lemma round_up_4: "((u :: nat) + 3) - (u + 3) mod 4 = (u + 3) div 4 * 4"
  by presburger

lemma unat_ALIGN_UP_4:
  assumes "unat (s :: 64 word) + 3 < 2 ^ 64"
  shows "unat (ALIGN_UP s 4) = (unat s + 3) div 4 * 4"
proof -
  have "unat s + unat (3 :: 64 word) < 2 ^ LENGTH(64)" using assms by simp
  then have "unat (s + 3) = unat s + unat (3 :: 64 word)" by (simp only: unat_add_lem)
  then have a: "unat (s + 3) = unat s + 3" by simp
  have "ALIGN_UP s 4 = (s + 3) AND - 4" by (simp add: ALIGN_UP_def add.commute)
  then have "unat (ALIGN_UP s 4) = (unat s + 3) - (unat s + 3) mod 4"
    by (simp only: unat_and_minus_4 a)
  then show ?thesis by (simp only: round_up_4)
qed

lemma unat_uminus_64: "unat (- (s :: 64 word)) = (if s = 0 then 0 else 2 ^ 64 - unat s)"
proof (cases "s = 0")
  case True
  then show ?thesis by simp
next
  case False
  then have "0 < unat s" by (simp add: unat_gt_0)
  moreover have "unat s < 2 ^ LENGTH(64)" by (rule unsigned_less)
  moreover have "unat (0 - s) = (if unat s \<le> unat (0 :: 64 word) then unat (0 :: 64 word) - unat s
     else unat (0 :: 64 word) + 2 ^ size (0 :: 64 word) - unat s)" by (rule unat_sub_if_size)
  ultimately show ?thesis using False by (simp add: word_size)
qed

lemma sub_mod_4:
  assumes "(u :: nat) \<le> 4 * k"
  shows "(4 * k - u) mod 4 = (4 - u mod 4) mod 4"
proof -
  obtain q r where u: "u = 4 * q + r" and r: "r < 4"
    by (metis mod_less_divisor mult_div_mod_eq zero_less_numeral)
  have m: "u mod 4 = r" using u r by simp
  show ?thesis
  proof (cases "r = 0")
    case True
    then have "4 * k - u = 4 * (k - q)" using u by simp
    then show ?thesis using True m by simp
  next
    case False
    with assms u have "q < k" by simp
    then have "4 * k - u = 4 * (k - q - 1) + (4 - r)" using u r by simp
    then have "(4 * k - u) mod 4 = (4 - r) mod 4" by simp
    then show ?thesis using m by simp
  qed
qed

lemma unat_ALIGN_UP_OVERHEAD_4:
  "unat (ALIGN_UP_OVERHEAD (s :: 64 word) 4) = (4 - unat s mod 4) mod 4"
proof -
  have "ALIGN_UP_OVERHEAD s 4 = (- s) AND 3" by (simp add: ALIGN_UP_OVERHEAD_def)
  then have e: "unat (ALIGN_UP_OVERHEAD s 4) = unat (- s) mod 4" by (simp only: unat_and_3)
  show ?thesis
  proof (cases "s = 0")
    case True
    then show ?thesis using e by simp
  next
    case False
    have "unat s < 2 ^ LENGTH(64)" by (rule unsigned_less)
    then have b: "unat s \<le> 4 * 4611686018427387904" by simp
    have "unat (- s) = 4 * 4611686018427387904 - unat s" using False by (simp add: unat_uminus_64)
    then have "unat (ALIGN_UP_OVERHEAD s 4) = (4 * 4611686018427387904 - unat s) mod 4" by (simp only: e)
    also have "\<dots> = (4 - unat s mod 4) mod 4" using b by (rule sub_mod_4)
    finally show ?thesis .
  qed
qed

lemma size_plus_padding: "(u :: nat) + (4 - u mod 4) mod 4 = (u + 3) div 4 * 4"
proof -
  obtain q r where u: "u = 4 * q + r" and r: "r < 4"
    by (metis mod_less_divisor mult_div_mod_eq zero_less_numeral)
  have m: "u mod 4 = r" using u r by simp
  have "(4 * q + (r + 3)) div 4 = q + (r + 3) div 4" by simp
  then have d: "(u + 3) div 4 = q + (r + 3) div 4" by (simp add: u add.assoc)
  from r consider "r = 0" | "r = 1" | "r = 2" | "r = 3" by linarith
  then show ?thesis unfolding m d
  proof cases
    case 1 then show "u + (4 - r) mod 4 = (q + (r + 3) div 4) * 4" using u by simp
  next
    case 2 then show "u + (4 - r) mod 4 = (q + (r + 3) div 4) * 4" using u by simp
  next
    case 3 then show "u + (4 - r) mod 4 = (q + (r + 3) div 4) * 4" using u by simp
  next
    case 4 then show "u + (4 - r) mod 4 = (q + (r + 3) div 4) * 4" using u by simp
  qed
qed

lemma unat_size_plus_overhead:
  "unat (s :: 64 word) + unat (ALIGN_UP_OVERHEAD s 4) = (unat s + 3) div 4 * 4"
  by (simp only: unat_ALIGN_UP_OVERHEAD_4 size_plus_padding)

lemma unat_plus_64:
  "unat (p :: 64 word) + unat q < 2 ^ 64 \<Longrightarrow> unat (p + q) = unat p + unat q"
proof -
  assume "unat p + unat q < 2 ^ 64"
  then have "unat p + unat q < 2 ^ LENGTH(64)" by simp
  then show ?thesis by (simp only: unat_add_lem)
qed

lemma ALIGN_UP_eq_size_plus_overhead:
  assumes "(unat (s :: 64 word) + 3) div 4 * 4 < 2 ^ 64"
  shows "ALIGN_UP s 4 = s + ALIGN_UP_OVERHEAD s 4"
proof -
  from assms have "unat s + 3 < 2 ^ 64" by simp
  then have a: "unat (ALIGN_UP s 4) = (unat s + 3) div 4 * 4" by (rule unat_ALIGN_UP_4)
  have "unat s + unat (ALIGN_UP_OVERHEAD s 4) < 2 ^ 64"
    using assms by (simp only: unat_size_plus_overhead)
  then have "unat (s + ALIGN_UP_OVERHEAD s 4) = unat s + unat (ALIGN_UP_OVERHEAD s 4)"
    by (rule unat_plus_64)
  then have "unat (s + ALIGN_UP_OVERHEAD s 4) = unat (ALIGN_UP s 4)"
    by (simp only: unat_size_plus_overhead a)
  then show ?thesis by (simp add: word_unat_eq_iff)
qed

lemma unat_plus_1_64: "unat (p :: 64 word) + 1 < 2 ^ 64 \<Longrightarrow> unat (p + 1) = unat p + 1"
  using unat_plus_64 [of p 1] by simp

lemma store_bytes_frame:
  "unat p + length bs \<le> 2 ^ 64 \<Longrightarrow> unat x < unat p \<or> unat p + length bs \<le> unat x \<Longrightarrow>
     store_bytes p bs m x = m x"
proof (induction bs arbitrary: p m)
  case Nil
  then show ?case by simp
next
  case (Cons b bs)
  from Cons.prems have ne: "x \<noteq> p" by auto
  show ?case
  proof (cases "bs = []")
    case True
    then show ?thesis using ne by simp
  next
    case False
    with Cons.prems have "unat p + 1 < 2 ^ 64" by (cases bs) auto
    then have p1: "unat (p + 1) = unat p + 1" by (rule unat_plus_1_64)
    have "store_bytes (p + 1) bs (m(p := b)) x = (m(p := b)) x"
      using Cons.prems p1 by (intro Cons.IH) auto
    then show ?thesis using ne by simp
  qed
qed

lemma store_bytes_zero:
  "k < n \<Longrightarrow> unat p + n \<le> 2 ^ 64 \<Longrightarrow> store_bytes p (replicate n 0) m (p + of_nat k) = 0"
proof (induction n arbitrary: p m k)
  case 0
  then show ?case by simp
next
  case (Suc n)
  show ?case
  proof (cases k)
    case 0
    show ?thesis
    proof (cases "n = 0")
      case True
      then show ?thesis using 0 by simp
    next
      case False
      with Suc.prems have "unat p + 1 < 2 ^ 64" by simp
      then have p1: "unat (p + 1) = unat p + 1" by (rule unat_plus_1_64)
      have "store_bytes (p + 1) (replicate n 0) (m(p := 0)) p = (m(p := 0)) p"
        using Suc.prems p1 by (intro store_bytes_frame) auto
      then show ?thesis using 0 by simp
    qed
  next
    case (Suc k')
    with Suc.prems have k': "k' < n" by simp
    with Suc.prems have "unat p + 1 < 2 ^ 64" by simp
    then have p1: "unat (p + 1) = unat p + 1" by (rule unat_plus_1_64)
    have "store_bytes (p + 1) (replicate n 0) (m(p := 0)) ((p + 1) + of_nat k') = 0"
      using Suc.prems p1 k' by (intro Suc.IH) auto
    then show ?thesis using Suc by (simp add: add.assoc)
  qed
qed

lemma spec_initrd_size_Cons:
  "spec_initrd_size (f # fs) = (unat (file_size f) + 3) div 4 * 4 + spec_initrd_size fs"
  by (simp add: spec_initrd_size_def)

lemma le_round_up_4: "(u :: nat) \<le> (u + 3) div 4 * 4"
  by (simp only: round_up_4 [symmetric])

lemma grub_file_read_bmem:
  assumes "unat ptr + unat len \<le> 2 ^ 64" "unat x < unat ptr \<or> unat ptr + unat len \<le> unat x"
  shows "bmem (snd (grub_file_read f ptr len w)) x = bmem w x"
proof (cases "file_read f")
  case (Read_error e)
  then show ?thesis by (simp add: grub_file_read_def file_layer_error_def)
next
  case (Read_bytes bs)
  have "store_bytes ptr (take (unat len) bs) (bmem w) x = bmem w x"
    using assms by (intro store_bytes_frame) auto
  then show ?thesis using Read_bytes by (simp add: grub_file_read_def Let_def)
qed

lemma initrd_read_files_bmem_frame:
  "initrd_read_files fs ptr w = (ok, w') \<Longrightarrow> unat ptr + spec_initrd_size fs < 2 ^ 64 \<Longrightarrow>
     unat x < unat ptr \<or> unat ptr + spec_initrd_size fs \<le> unat x \<Longrightarrow> bmem w' x = bmem w x"
proof (induction fs arbitrary: ptr w)
  case Nil
  then show ?case by simp
next
  case (Cons f fs)
  let ?s = "file_size f"
  let ?o = "ALIGN_UP_OVERHEAD ?s 4"
  let ?A = "(unat ?s + 3) div 4 * 4"
  let ?w1 = "snd (grub_file_read f ptr ?s w)"
  let ?w3 = "grub_memset (ptr + ?s) 0 ?o (log (Tpm_measure_initrd ptr ?s) ?w1)"
  from Cons.prems(2) have bound: "unat ptr + ?A + spec_initrd_size fs < 2 ^ 64"
    by (simp only: spec_initrd_size_Cons add.assoc)
  have sA: "unat ?s \<le> ?A" by (rule le_round_up_4)
  have so: "unat ?s + unat ?o = ?A" by (rule unat_size_plus_overhead)
  from bound sA have "unat ptr + unat ?s < 2 ^ 64" by linarith
  then have ps: "unat (ptr + ?s) = unat ptr + unat ?s" by (rule unat_plus_64)
  from bound so ps have "unat (ptr + ?s) + unat ?o < 2 ^ 64" by linarith
  then have pso: "unat (ptr + ?s + ?o) = unat ptr + ?A"
    using unat_plus_64 [of "ptr + ?s" ?o] ps so by linarith
  from Cons.prems(3) have out: "unat x < unat ptr \<or> unat ptr + ?A + spec_initrd_size fs \<le> unat x"
    by (simp only: spec_initrd_size_Cons add.assoc)
  have b1: "bmem ?w1 x = bmem w x"
    using bound sA out by (intro grub_file_read_bmem) linarith+
  show ?case
  proof (cases "fst (grub_file_read f ptr ?s w) \<noteq> ?s")
    case True
    with Cons.prems(1) have "bmem w' = bmem ?w1"
      by (auto simp: Let_def split_def grub_error_def split: if_splits)
    then show ?thesis using b1 by simp
  next
    case False
    with Cons.prems(1) have rec: "initrd_read_files fs (ptr + ?s + ?o) ?w3 = (ok, w')"
      by (simp add: Let_def split_def)
    have l1: "unat (ptr + ?s) + length (replicate (unat ?o) (0 :: 8 word)) \<le> 2 ^ 64"
      unfolding length_replicate using bound so ps by linarith
    have l2: "unat x < unat (ptr + ?s)
        \<or> unat (ptr + ?s) + length (replicate (unat ?o) (0 :: 8 word)) \<le> unat x"
      unfolding length_replicate using bound so ps out by linarith
    have "store_bytes (ptr + ?s) (replicate (unat ?o) 0) (bmem ?w1) x = bmem ?w1 x"
      by (rule store_bytes_frame [OF l1 l2])
    then have b3: "bmem ?w3 x = bmem ?w1 x" by (simp add: grub_memset_def log_def)
    have l3: "unat (ptr + ?s + ?o) + spec_initrd_size fs < 2 ^ 64"
      using bound pso by linarith
    have l4: "unat x < unat (ptr + ?s + ?o) \<or> unat (ptr + ?s + ?o) + spec_initrd_size fs \<le> unat x"
      using out pso by linarith
    have "bmem w' x = bmem ?w3 x"
      by (rule Cons.IH [OF rec l3 l4])
    then show ?thesis using b3 b1 by simp
  qed
qed

lemma unat_of_nat_64: "k < 2 ^ 64 \<Longrightarrow> unat (of_nat k :: 64 word) = k"
  by (simp add: unat_of_nat)

lemma unat_initrd_total:
  "spec_initrd_size fs < 2 ^ 64 \<Longrightarrow> unat (initrd_total fs) = spec_initrd_size fs"
proof (induction fs)
  case Nil
  then show ?case by (simp add: initrd_total_def spec_initrd_size_def)
next
  case (Cons f fs)
  let ?A = "(unat (file_size f) + 3) div 4 * 4"
  from Cons.prems have b: "?A + spec_initrd_size fs < 2 ^ 64"
    by (simp only: spec_initrd_size_Cons)
  then have "?A < 2 ^ 64" by linarith
  then have "unat (file_size f) + 3 < 2 ^ 64" by simp
  then have a: "unat (ALIGN_UP (file_size f) 4) = ?A" by (rule unat_ALIGN_UP_4)
  from b have "spec_initrd_size fs < 2 ^ 64" by linarith
  then have t: "unat (initrd_total fs) = spec_initrd_size fs" by (rule Cons.IH)
  have c: "initrd_total (f # fs) = ALIGN_UP (file_size f) 4 + initrd_total fs"
    by (simp add: initrd_total_def)
  from b a t have "unat (ALIGN_UP (file_size f) 4) + unat (initrd_total fs) < 2 ^ 64" by linarith
  then have "unat (ALIGN_UP (file_size f) 4 + initrd_total fs) =
      unat (ALIGN_UP (file_size f) 4) + unat (initrd_total fs)" by (rule unat_plus_64)
  then show ?case by (simp only: c a t spec_initrd_size_Cons)
qed

lemma initrd_read_files_padding:
  "initrd_read_files fs ptr w = (True, w') \<Longrightarrow> unat ptr + spec_initrd_size fs < 2 ^ 64 \<Longrightarrow>
     padding_zeroed (bmem w') ptr fs"
proof (induction fs arbitrary: ptr w)
  case Nil
  then show ?case by simp
next
  case (Cons f fs)
  let ?s = "file_size f"
  let ?o = "ALIGN_UP_OVERHEAD ?s 4"
  let ?A = "(unat ?s + 3) div 4 * 4"
  let ?w1 = "snd (grub_file_read f ptr ?s w)"
  let ?w3 = "grub_memset (ptr + ?s) 0 ?o (log (Tpm_measure_initrd ptr ?s) ?w1)"
  from Cons.prems(2) have bound: "unat ptr + ?A + spec_initrd_size fs < 2 ^ 64"
    by (simp only: spec_initrd_size_Cons add.assoc)
  have sA: "unat ?s \<le> ?A" by (rule le_round_up_4)
  have so: "unat ?s + unat ?o = ?A" by (rule unat_size_plus_overhead)
  from bound sA have "unat ptr + unat ?s < 2 ^ 64" by linarith
  then have ps: "unat (ptr + ?s) = unat ptr + unat ?s" by (rule unat_plus_64)
  from bound so ps have pso0: "unat (ptr + ?s) + unat ?o < 2 ^ 64" by linarith
  then have pso: "unat (ptr + ?s + ?o) = unat ptr + ?A"
    using unat_plus_64 [of "ptr + ?s" ?o] ps so by linarith
  from Cons.prems(1) have rec: "initrd_read_files fs (ptr + ?s + ?o) ?w3 = (True, w')"
    by (auto simp: Let_def split_def split: if_splits)
  have l3: "unat (ptr + ?s + ?o) + spec_initrd_size fs < 2 ^ 64"
    using bound pso by linarith
  have tail: "padding_zeroed (bmem w') (ptr + ?s + ?o) fs"
    by (rule Cons.IH [OF rec l3])
  from bound have "?A < 2 ^ 64" by linarith
  then have "ALIGN_UP ?s 4 = ?s + ?o" by (rule ALIGN_UP_eq_size_plus_overhead)
  then have al: "ptr + ALIGN_UP ?s 4 = ptr + ?s + ?o" by (simp only: add.assoc)
  have hd: "\<forall>k \<in> {0 ..< unat ?o}. bmem w' (ptr + ?s + of_nat k) = 0"
  proof
    fix k :: nat
    assume "k \<in> {0 ..< unat ?o}"
    then have k: "k < unat ?o" by simp
    from pso0 have le: "unat (ptr + ?s) + unat ?o \<le> 2 ^ 64" by linarith
    have "store_bytes (ptr + ?s) (replicate (unat ?o) 0)
            (bmem (log (Tpm_measure_initrd ptr ?s) ?w1)) (ptr + ?s + of_nat k) = 0"
      by (rule store_bytes_zero [OF k le])
    then have z: "bmem ?w3 (ptr + ?s + of_nat k) = 0" by (simp add: grub_memset_def)
    from k pso0 have "k < 2 ^ 64" by linarith
    then have uk0: "unat (of_nat k :: 64 word) = k" by (rule unat_of_nat_64)
    with k pso0 have "unat (ptr + ?s) + unat (of_nat k :: 64 word) < 2 ^ 64" by linarith
    then have "unat (ptr + ?s + of_nat k) = unat (ptr + ?s) + unat (of_nat k :: 64 word)"
      by (rule unat_plus_64)
    with uk0 ps have uk: "unat (ptr + ?s + of_nat k) = unat ptr + unat ?s + k" by linarith
    have l4: "unat (ptr + ?s + of_nat k) < unat (ptr + ?s + ?o)
        \<or> unat (ptr + ?s + ?o) + spec_initrd_size fs \<le> unat (ptr + ?s + of_nat k)"
      using uk pso k so by linarith
    have "bmem w' (ptr + ?s + of_nat k) = bmem ?w3 (ptr + ?s + of_nat k)"
      by (rule initrd_read_files_bmem_frame [OF rec l3 l4])
    with z show "bmem w' (ptr + ?s + of_nat k) = 0" by simp
  qed
  from hd tail show ?case by (simp only: padding_zeroed.simps al)
qed

lemma allocate_pages_max_result:
  assumes "grub_efi_allocate_pages_max mx n w = (m, w2)"
  shows "params w2 = params w" "pmem w2 = pmem w" "bmem w2 = bmem w" "grub_errno w2 = grub_errno w"
    "loaded w2 = loaded w" "trace w2 = trace w @ [Allocate_pages_max mx n m]"
    "faulted w2 = faulted w"
    "m \<noteq> 0 \<longrightarrow> unat m + unat n * 4096 \<le> unat mx + 1"
  using assms
  by (auto simp: grub_efi_allocate_pages_max_def log_def Let_def split: list.splits if_splits)

lemma initrd_open_files_size:
  "spec_initrd_size fs < 2 ^ 64 \<Longrightarrow>
     unat (fst (snd (snd (initrd_open_files (map Inr fs) [] 0 w)))) = spec_initrd_size fs"
  by (simp add: initrd_open_files_all unat_initrd_total)

lemma pages_of_initrd_total:
  assumes "spec_initrd_size fs + 4095 < 2 ^ 64"
  shows "BYTES_TO_PAGES (initrd_total fs) = of_nat ((spec_initrd_size fs + 4095) div 4096)"
    and "spec_initrd_size fs \<le> unat (BYTES_TO_PAGES (initrd_total fs)) * 4096"
proof -
  from assms have "spec_initrd_size fs < 2 ^ 64" by linarith
  then have t: "unat (initrd_total fs) = spec_initrd_size fs" by (rule unat_initrd_total)
  with assms have "unat (initrd_total fs) + 4095 < 2 ^ LENGTH(64)" by simp
  then have "unat (BYTES_TO_PAGES (initrd_total fs)) = (unat (initrd_total fs) + 4095) div 4096"
    by (rule unat_BYTES_TO_PAGES)
  then have u: "unat (BYTES_TO_PAGES (initrd_total fs)) = (spec_initrd_size fs + 4095) div 4096"
    by (simp only: t)
  have "BYTES_TO_PAGES (initrd_total fs) = of_nat (unat (BYTES_TO_PAGES (initrd_total fs)))"
    by simp
  then show "BYTES_TO_PAGES (initrd_total fs) = of_nat ((spec_initrd_size fs + 4095) div 4096)"
    by (simp only: u)
  have "spec_initrd_size fs \<le> (spec_initrd_size fs + 4095) div 4096 * 4096" by simp
  then show "spec_initrd_size fs \<le> unat (BYTES_TO_PAGES (initrd_total fs)) * 4096"
    by (simp only: u)
qed

lemmas initrd_eval_defs = grub_cmd_initrd_def initrd_fail_def grub_file_read_def grub_memset_def
  ALIGN_UP_def ALIGN_UP_OVERHEAD_def two_files_def two_files_short_def
  grub_efi_allocate_pages_max_def grub_efi_free_pages_def grub_error_def file_layer_error_def
  log_def fault_def BYTES_TO_PAGES_def Let_def scenario_loaded_def scenario_header_def
  events_since_def

lemma replicate_two: "replicate 2 x = [x, x]"
  by (simp add: numeral_2_eq_2)

subsection \<open>C1: what unload frees\<close>

text \<open>
  Claim C1: every unload frees each of the four firmware allocations exactly once and
  with the number of pages it was allocated with; in particular the free of KernelMemory
  covers the rounded-up \<open>init_size\<close>. The code does not do this for KernelMemory:
  \<open>kernel_size\<close> is never assigned, so the free at line 110 is for
  \<open>BYTES_TO_PAGES (0)\<close> pages. After the scenario's image (two pages of kernel memory at
  16 MiB) has been loaded and unloaded, the log holds the allocation of two pages and,
  for the same address, one free of zero pages.
\<close>

theorem kernel_memory_freed_with_zero_pages:
  "(let tr = trace (run [Cmd_linux (scenario_env (scenario_header 0x020b) no_shim), Unload]
                      (init_world [0x100000, 0x200000, 1]))
    in Allocate_pages 0x1000000 2 0x1000000 \<in> set tr
       \<and> filter (frees 0x1000000) tr = [Free_pages 0x1000000 0])"
  by (simp add: run_def exec_init scenario_load) (simp add: eval_defs cong: let_weak_cong)

subsection \<open>C2: when the state becomes Loaded\<close>

text \<open>
  Claim C2 says that the state flips to Loaded only after the patched header has been
  copied into the parameter block and the loader type has been set. In the code the store
  \<open>loaded = 1\<close> (line 322) comes before both (lines 328 and 330): the log of a
  successful load does not have the order of the claim.
\<close>

theorem flag_precedes_header_copy:
  "\<not> flag_after_header False False
       (trace (grub_cmd_linux (scenario_env (scenario_header 0x020b) no_shim)
                 (init_world [0x100000, 0x200000, 1])))"
  by (simp add: scenario_load) (simp add: scenario_loaded_def)

text \<open>
  Claim C2 as the code has it: in every load, from every state, whenever the flag is
  stored, the three events just before the store are a page allocation that succeeded,
  the copy of the payload to the address it returned and the registration of the loader,
  and the two events just after the store are the copy of the header into the parameter
  block and the store of the loader type 0x21 into the same block, with nothing that can
  fail in between. And a load of a file that stored the flag has stored it once, in this
  place of its log: the allocation is the one of KernelMemory, the payload that was
  copied there is the file after its setup sectors, and the header that was copied into
  the parameter block is the header of the file with the command line pointer and the
  entry address patched. Such a load has not faulted, KernelMemory is allocated, the
  parameter block holds that header with the loader type 0x21, and at return the state
  is Loaded exactly when the load returns without error (the code after \<open>fail\<close> takes
  the flag back when \<open>grub_errno\<close> still holds an error from before the command).
\<close>

theorem loaded_flag_order:
  "flag_in_order [] (events_since w (grub_cmd_linux e w))
   \<and> (Store_loaded True \<in> set (events_since w (grub_cmd_linux e w)) \<and> file_open e = Inr img \<longrightarrow>
        (\<exists>pre a post. events_since w (grub_cmd_linux e w) =
             pre @ [a,
                    Copy_kernel (kernel_mem (grub_cmd_linux e w))
                      ((ucast (setup_sects (k_header img)) + 1) * 512)
                      (k_size img - (ucast (setup_sects (k_header img)) + 1) * 512),
                    Loader_set, Store_loaded True,
                    Copy_header (params (grub_cmd_linux e w))
                      ((k_header img)\<lparr>cmd_line_ptr := ucast (linux_cmdline (grub_cmd_linux e w)),
                                      code32_start := ucast (kernel_mem (grub_cmd_linux e w))\<rparr>),
                    Store_loader_type (params (grub_cmd_linux e w)) 0x21] @ post
           \<and> allocates (kernel_mem (grub_cmd_linux e w)) a
           \<and> Store_loaded True \<notin> set pre \<and> Store_loaded True \<notin> set post)
        \<and> faulted (grub_cmd_linux e w) = faulted w
        \<and> kernel_mem (grub_cmd_linux e w) \<noteq> 0
        \<and> pmem (grub_cmd_linux e w) (params (grub_cmd_linux e w)) =
            (k_header img)\<lparr>cmd_line_ptr := ucast (linux_cmdline (grub_cmd_linux e w)),
                            code32_start := ucast (kernel_mem (grub_cmd_linux e w)),
                            type_of_loader := 0x21\<rparr>
        \<and> loaded (grub_cmd_linux e w) = (grub_errno (grub_cmd_linux e w) = GRUB_ERR_NONE))"
proof (cases "\<exists>name args img. argv e = name # args \<and> file_open e = Inr img \<and> malloc_ok e \<and> k_read img = k_size img")
  case False
  from grub_cmd_linux_early [OF False, of w]
  have "Store_loaded True \<notin> set (events_since w (grub_cmd_linux e w))" by blast
  then show ?thesis by (simp add: flag_in_order_clean)
next
  case True
  then obtain name args img' where h: "argv e = name # args" "file_open e = Inr img'" "malloc_ok e" "k_read img' = k_size img'"
    by blast
  show ?thesis
  proof (cases "grub_linuxefi_secure_validate (platform e)")
    case False
    then have "Store_loaded True \<notin> set (events_since w (grub_cmd_linux e w))"
      by (simp add: grub_cmd_linux_read_ok [OF h] events_since_def linux_fail_trace read_prefix_def)
    then show ?thesis by (simp add: flag_in_order_clean)
  next
    case True
    let ?w5 = "w\<lparr>trace := trace w @ read_prefix e img'\<rparr>"
    let ?r = "linux_load_params e img' ?w5"
    let ?w6 = "fst ?r"
    let ?S = "(ucast (setup_sects (k_header img')) + 1) * 512 :: 64 word"
    let ?H = "(k_header img')\<lparr>cmd_line_ptr := ucast (linux_cmdline ?w6),
                 code32_start := ucast (kernel_mem ?w6)\<rparr>"
    from linux_load_params_events [of e img' ?w5] obtain ys where
      tr: "trace ?w6 = trace ?w5 @ ys" and ys: "\<forall>hist. flag_in_order hist ys"
      and fl: "Store_loaded True \<in> set ys \<longrightarrow>
            \<not> snd (snd ?r) \<and> loaded ?w6 \<and> grub_errno ?w6 = grub_errno ?w5
          \<and> kernel_mem ?w6 \<noteq> 0 \<and> faulted ?w6 = faulted ?w5
          \<and> pmem ?w6 (params ?w6) = ?H\<lparr>type_of_loader := 0x21\<rparr>" by blast
    from grub_cmd_linux_events [OF h True tr]
    obtain zs where ev: "events_since w (grub_cmd_linux e w) = read_prefix e img' @ (ys @ zs)"
      and zs: "Store_loaded True \<notin> set zs" by auto
    have pre: "Store_loaded True \<notin> set (read_prefix e img')" by (simp add: read_prefix_def)
    from ys have "flag_in_order (rev (read_prefix e img') @ []) ys" by blast
    then have "flag_in_order (rev (read_prefix e img') @ []) (ys @ zs)"
      using zs by (rule flag_in_order_append)
    then have A: "flag_in_order [] (events_since w (grub_cmd_linux e w))"
      unfolding ev by (simp only: flag_in_order_prepend [OF pre])
    have B: "(\<exists>pre a post. events_since w (grub_cmd_linux e w) =
             pre @ [a,
                    Copy_kernel (kernel_mem (grub_cmd_linux e w))
                      ((ucast (setup_sects (k_header img)) + 1) * 512)
                      (k_size img - (ucast (setup_sects (k_header img)) + 1) * 512),
                    Loader_set, Store_loaded True,
                    Copy_header (params (grub_cmd_linux e w))
                      ((k_header img)\<lparr>cmd_line_ptr := ucast (linux_cmdline (grub_cmd_linux e w)),
                                      code32_start := ucast (kernel_mem (grub_cmd_linux e w))\<rparr>),
                    Store_loader_type (params (grub_cmd_linux e w)) 0x21] @ post
           \<and> allocates (kernel_mem (grub_cmd_linux e w)) a
           \<and> Store_loaded True \<notin> set pre \<and> Store_loaded True \<notin> set post)
        \<and> faulted (grub_cmd_linux e w) = faulted w
        \<and> kernel_mem (grub_cmd_linux e w) \<noteq> 0
        \<and> pmem (grub_cmd_linux e w) (params (grub_cmd_linux e w)) =
            (k_header img)\<lparr>cmd_line_ptr := ucast (linux_cmdline (grub_cmd_linux e w)),
                            code32_start := ucast (kernel_mem (grub_cmd_linux e w)),
                            type_of_loader := 0x21\<rparr>
        \<and> loaded (grub_cmd_linux e w) = (grub_errno (grub_cmd_linux e w) = GRUB_ERR_NONE)"
      if s: "Store_loaded True \<in> set (events_since w (grub_cmd_linux e w))"
        and i: "file_open e = Inr img"
    proof -
      from i h have ii: "img' = img" by simp
      from s ev zs pre have sy: "Store_loaded True \<in> set ys" by auto
      with fl
      have f: "\<not> snd (snd ?r)" "loaded ?w6" "kernel_mem ?w6 \<noteq> 0" "faulted ?w6 = faulted ?w5"
        "pmem ?w6 (params ?w6) = ?H\<lparr>type_of_loader := 0x21\<rparr>" by blast+
      from linux_load_params_window [OF tr sy] obtain pre0 a where
        win: "ys = pre0 @ [a, Copy_kernel (kernel_mem ?w6) ?S (k_size img' - ?S), Loader_set,
                Store_loaded True, Copy_header (params ?w6) ?H, Store_loader_type (params ?w6) 0x21]"
        and al: "allocates (kernel_mem ?w6) a" and np: "Store_loaded True \<notin> set pre0"
        by blast
      have eq: "grub_cmd_linux e w = linux_fail \<lparr>l_file = True, l_kernel = True, l_lh = fst (snd ?r)\<rparr> ?w6"
        using f(1) by (simp add: grub_cmd_linux_read_ok [OF h] True)
      have fields: "kernel_mem (grub_cmd_linux e w) = kernel_mem ?w6"
        "params (grub_cmd_linux e w) = params ?w6"
        "linux_cmdline (grub_cmd_linux e w) = linux_cmdline ?w6"
        "pmem (grub_cmd_linux e w) = pmem ?w6"
        "faulted (grub_cmd_linux e w) = faulted ?w6"
        "grub_errno (grub_cmd_linux e w) = grub_errno ?w6"
        "loaded (grub_cmd_linux e w) = (loaded ?w6 \<and> grub_errno ?w6 = GRUB_ERR_NONE)"
        by (simp_all add: eq linux_fail_fields)
      have "events_since w (grub_cmd_linux e w) =
          (read_prefix e img' @ pre0) @ [a, Copy_kernel (kernel_mem ?w6) ?S (k_size img' - ?S),
             Loader_set, Store_loaded True, Copy_header (params ?w6) ?H,
             Store_loader_type (params ?w6) 0x21] @ zs"
        by (simp add: ev win)
      moreover have "Store_loaded True \<notin> set (read_prefix e img' @ pre0)" using pre np by simp
      ultimately have W: "\<exists>pre a post. events_since w (grub_cmd_linux e w) =
             pre @ [a, Copy_kernel (kernel_mem ?w6) ?S (k_size img' - ?S),
               Loader_set, Store_loaded True, Copy_header (params ?w6) ?H,
               Store_loader_type (params ?w6) 0x21] @ post
           \<and> allocates (kernel_mem ?w6) a
           \<and> Store_loaded True \<notin> set pre \<and> Store_loaded True \<notin> set post"
        using al zs by blast
      from W f show ?thesis
        unfolding fields ii [symmetric] by simp
    qed
    from A B show ?thesis by blast
  qed
qed

text \<open>The scenario's image with version 0x020b, loaded from the initial state.\<close>

theorem loaded_flag_order_witness:
  "(let w = init_world [0x100000, 0x200000, 1];
        w' = grub_cmd_linux (scenario_env (scenario_header 0x020b) no_shim) w
    in Store_loaded True \<in> set (events_since w w')
       \<and> flag_in_order [] (events_since w w')
       \<and> (\<exists>pre a post. events_since w w' =
              pre @ [a, Copy_kernel 0x1000000 2560 5632, Loader_set, Store_loaded True,
                     Copy_header 0x100000 ((scenario_header 0x020b)
                        \<lparr>cmd_line_ptr := 0x200000, code32_start := 0x1000000\<rparr>),
                     Store_loader_type 0x100000 0x21] @ post
            \<and> allocates 0x1000000 a
            \<and> Store_loaded True \<notin> set pre \<and> Store_loaded True \<notin> set post)
       \<and> loaded w' \<and> \<not> faulted w' \<and> kernel_mem w' = 0x1000000
       \<and> type_of_loader (pmem w' 0x100000) = 0x21)"
proof -
  let ?w = "init_world [0x100000, 0x200000, 1]"
  let ?e = "scenario_env (scenario_header 0x020b) no_shim"
  let ?img = "\<lparr> k_size = 0x2000, k_read = 0x2000, k_header = scenario_header 0x020b \<rparr>"
  have h: "Store_loaded True \<in> set (events_since ?w (grub_cmd_linux ?e ?w))
          \<and> file_open ?e = Inr ?img"
    by (simp add: scenario_load) (simp add: scenario_loaded_def events_since_def init_world_def scenario_env_def)
  have p: "params (grub_cmd_linux ?e ?w) = 0x100000" "kernel_mem (grub_cmd_linux ?e ?w) = 0x1000000"
    "linux_cmdline (grub_cmd_linux ?e ?w) = 0x200000"
    "grub_errno (grub_cmd_linux ?e ?w) = GRUB_ERR_NONE"
    "\<not> faulted ?w" "setup_sects (scenario_header 0x020b) = 4"
    by (simp_all add: scenario_load) (simp_all add: scenario_loaded_def init_world_def scenario_header_def)
  from loaded_flag_order [of ?w ?e ?img] h p show ?thesis by (simp add: Let_def)
qed

subsection \<open>C3: a ramdisk load that fails after its buffer was allocated\<close>




subsection \<open>C4: unload after a failed load\<close>

text \<open>
  Claim C4: after a failed load every resource of the attempt is released and the state is
  Unloaded, and running the unload path again frees nothing. The code frees again: no
  pointer is reset after its pages have been freed, so the guards of lines 105 to 111 let
  every free through a second time. Here the scenario's image is loaded, then a load of
  the same image with a wrong magic number fails (its cleanup frees the command line
  buffer and the kernel memory of the first load and its own parameter block at
  0x300000), then the unload registered by the first load runs.
\<close>

theorem unload_after_failed_load_frees_again:
  "(let tr = trace (run [Cmd_linux (scenario_env (scenario_header 0x020b) no_shim),
                         Cmd_linux (scenario_env ((scenario_header 0x020b)\<lparr>boot_flag := 0\<rparr>) no_shim),
                         Unload]
                      (init_world [0x100000, 0x200000, 1, 0x300000]))
    in filter (frees 0x300000) tr = [Free_pages 0x300000 4, Free_pages 0x300000 4]
       \<and> filter (frees 0x200000) tr = [Free_pages 0x200000 1, Free_pages 0x200000 1]
       \<and> outstanding tr 0x300000 = - 1)"
  by (simp add: run_def exec_init scenario_load) (simp add: eval_defs cong: let_weak_cong)

subsection \<open>C5: the scenarios with versions 0x0203 and 0x0200\<close>




subsection \<open>C6: wrong magic number, no handover entry\<close>

text \<open>
  Claim C6 says that for an image with a wrong magic number, or without handover entry,
  the load fails with a bad-format error and no memory is allocated. The parameter block
  is allocated (line 246) before the header is looked at (line 258): the log of such a
  load holds one page allocation.
\<close>

theorem bad_magic_allocates_parameter_block:
  "(let w = grub_cmd_linux (scenario_env ((scenario_header 0x020b)\<lparr>boot_flag := 0\<rparr>) no_shim)
              (init_world [0x100000, 0x200000, 1])
    in grub_errno w = GRUB_ERR_BAD_OS
       \<and> filter is_page_alloc (trace w) = [Allocate_pages_max 0x3fffffff 4 0x100000])"
  by (simp add: eval_defs cong: let_weak_cong)

text \<open>
  Claim C6 as the code has it: when the file has been read, verification has passed and
  the firmware has granted the four pages of the parameter block at \<open>p\<close>, a load of an
  image whose magic number is not 0xAA55 or whose handover offset is 0 fails with
  \<open>GRUB_ERR_BAD_OS\<close>, from every state; the state is Unloaded afterwards; the parameter
  block is the only allocation of the attempt (no command line buffer, no kernel memory),
  and the last thing the load does is to free its four pages. The message is "invalid
  magic number" in the first case and "kernel doesn't support EFI handover" when
  everything but the handover offset is in order.
\<close>

theorem bad_header_releases_parameter_block:
  assumes "argv e = name # args" "file_open e = Inr img" "malloc_ok e" "k_read img = k_size img"
    and "grub_linuxefi_secure_validate (platform e)"
    and "alloc_answers w = p # rest" "p \<noteq> 0" "unat p + 16384 \<le> 2 ^ 30"
    and "boot_flag (k_header img) \<noteq> 0xaa55 \<or> handover_offset (k_header img) = 0"
  shows "grub_errno (grub_cmd_linux e w) = GRUB_ERR_BAD_OS
       \<and> \<not> loaded (grub_cmd_linux e w)
       \<and> filter is_page_alloc (events_since w (grub_cmd_linux e w)) = [Allocate_pages_max 0x3fffffff 4 p]
       \<and> last (events_since w (grub_cmd_linux e w)) = Free_pages p 4
       \<and> (boot_flag (k_header img) \<noteq> 0xaa55 \<longrightarrow> errmsg (grub_cmd_linux e w) = ''invalid magic number'')
       \<and> (boot_flag (k_header img) = 0xaa55 \<and> unat (setup_sects (k_header img)) \<le> GRUB_LINUX_MAX_SETUP_SECTS e
            \<and> 0x020b \<le> version (k_header img) \<longrightarrow>
              errmsg (grub_cmd_linux e w) = ''kernel doesn't support EFI handover'')"
proof -
  let ?w5 = "w\<lparr>trace := trace w @ read_prefix e img\<rparr>"
  let ?msg = "if boot_flag (k_header img) \<noteq> 0xaa55 then ''invalid magic number''
              else if unat (setup_sects (k_header img)) > GRUB_LINUX_MAX_SETUP_SECTS e
              then ''too many setup sectors''
              else if version (k_header img) < 0x020b then ''kernel too old''
              else ''kernel doesn't support EFI handover''"
  let ?w6 = "w\<lparr>alloc_answers := rest, params := p, pmem := (pmem w)(p := zero_header),
           grub_errno := GRUB_ERR_BAD_OS, errmsg := ?msg,
           trace := trace w @ read_prefix e img @ [Allocate_pages_max 0x3fffffff 4 p, Memset_params p]\<rparr>"
  have lp: "linux_load_params e img ?w5 = (?w6, k_header img, False)"
    using assms(6-9)
    by (auto simp: linux_load_params_def alloc_defs Let_def BYTES_TO_PAGES_16384)
  have eq: "grub_cmd_linux e w = linux_fail \<lparr>l_file = True, l_kernel = True, l_lh = k_header img\<rparr> ?w6"
    by (simp add: grub_cmd_linux_read_ok [OF assms(1-4)] assms(5) lp)
  show ?thesis
    using assms(7)
    by (auto simp: eq linux_fail_fields linux_fail_trace events_since_def read_prefix_def)
qed

text \<open>The scenario's image with version 0x020b and handover offset 0.\<close>

theorem bad_header_releases_parameter_block_witness:
  "(let w = init_world [0x100000];
        w' = grub_cmd_linux (scenario_env ((scenario_header 0x020b)\<lparr>handover_offset := 0\<rparr>) no_shim) w
    in grub_errno w' = GRUB_ERR_BAD_OS \<and> \<not> loaded w'
       \<and> filter is_page_alloc (events_since w w') = [Allocate_pages_max 0x3fffffff 4 0x100000]
       \<and> last (events_since w w') = Free_pages 0x100000 4
       \<and> errmsg w' = ''kernel doesn't support EFI handover'')"
  using bad_header_releases_parameter_block
    [of "scenario_env ((scenario_header 0x020b)\<lparr>handover_offset := 0\<rparr>) no_shim" "''vmlinuz''" "[]"
        "\<lparr> k_size = 0x2000, k_read = 0x2000, k_header = (scenario_header 0x020b)\<lparr>handover_offset := 0\<rparr> \<rparr>"
        "init_world [0x100000]" "0x100000" "[]"]
  by (simp add: scenario_env_def scenario_header_def no_shim_def grub_linuxefi_secure_validate_def
        init_world_def Let_def)

subsection \<open>C7: the buffer that holds the kernel file\<close>

text \<open>
  Claim C7: the buffer holding the raw kernel file is freed exactly once by the end of
  every load, also when the load fails at the signature check. On that path the code
  frees it twice: line 242 frees it and jumps to \<open>fail\<close>, where line 338 frees it
  again since \<open>kernel\<close> is still not null. Without shim protocol and with secure boot
  on, the log holds one allocation of the buffer and two frees.
\<close>

theorem kernel_buffer_freed_twice:
  "filter (\<lambda>e. e = Kernel_malloc \<or> e = Kernel_free)
     (trace (grub_cmd_linux (scenario_env (scenario_header 0x020b) no_shim_secure_boot)
               (init_world [0x100000, 0x200000, 1])))
   = [Kernel_malloc, Kernel_free, Kernel_free]"
  by (simp add: eval_defs cong: let_weak_cong)

subsection \<open>C8: verification after measurement and before allocation\<close>

text \<open>
  Claim C8: in every load, from every state, the signature verification comes after the
  measurement of the whole kernel file and before any firmware page is requested. When
  the file has been opened, buffered and read completely, the load begins with exactly
  these five events, the measurement and then the verification, whatever the verdict
  is; and when the shim protocol is absent and secure boot is on, the load fails with
  \<open>GRUB_ERR_INVALID_COMMAND\<close> and the message "... has invalid signature" without
  having requested a single page.
\<close>

theorem verification_precedes_allocation:
  "verify_ordered False False (events_since w (grub_cmd_linux e w))
   \<and> (argv e = name # args \<and> file_open e = Inr img \<and> malloc_ok e \<and> k_read img = k_size img \<longrightarrow>
        take 5 (events_since w (grub_cmd_linux e w)) =
          [Dl_ref, File_open, Kernel_malloc, Tpm_measure_kernel (k_size img),
           Secure_validate (grub_linuxefi_secure_validate (platform e))]
        \<and> (shim_lock (platform e) = None \<and> secure_boot (platform e) \<longrightarrow>
              grub_errno (grub_cmd_linux e w) = GRUB_ERR_INVALID_COMMAND
            \<and> errmsg (grub_cmd_linux e w) = name @ '' has invalid signature''
            \<and> filter is_page_alloc (events_since w (grub_cmd_linux e w)) = []))"
proof (intro conjI impI)
  show "verify_ordered False False (events_since w (grub_cmd_linux e w))"
  proof (cases "\<exists>name args img. argv e = name # args \<and> file_open e = Inr img \<and> malloc_ok e \<and> k_read img = k_size img")
    case False
    from grub_cmd_linux_early [OF False, of w]
    have "\<forall>x\<in>set (events_since w (grub_cmd_linux e w)). \<not> is_validate x" by blast
    then show ?thesis
      using verify_ordered_append [of "events_since w (grub_cmd_linux e w)" False False "[]"] by simp
  next
    case True
    then obtain name args img where h: "argv e = name # args" "file_open e = Inr img" "malloc_ok e" "k_read img = k_size img"
      by blast
    show ?thesis
    proof (cases "grub_linuxefi_secure_validate (platform e)")
      case False
      then show ?thesis
        by (simp add: grub_cmd_linux_read_ok [OF h] events_since_def linux_fail_trace read_prefix_def)
    next
      case True
      let ?w5 = "w\<lparr>trace := trace w @ read_prefix e img\<rparr>"
      from linux_load_params_events [of e img ?w5] obtain ys where
        tr: "trace (fst (linux_load_params e img ?w5)) = trace ?w5 @ ys"
        and ys: "\<forall>x\<in>set ys. \<not> is_validate x \<and> \<not> is_measure x" by blast
      from grub_cmd_linux_events [OF h True tr]
      obtain zs where ev: "events_since w (grub_cmd_linux e w) = read_prefix e img @ (ys @ zs)"
        and zs: "\<forall>x\<in>set zs. \<not> is_validate x" by auto
      have "\<forall>x\<in>set (ys @ zs). \<not> is_validate x" using ys zs by auto
      then have "verify_ordered False False (read_prefix e img @ (ys @ zs)) = verify_ordered False False (read_prefix e img)"
        by (rule verify_ordered_append)
      then show ?thesis by (simp add: ev read_prefix_def)
    qed
  qed
next
  assume h: "argv e = name # args \<and> file_open e = Inr img \<and> malloc_ok e \<and> k_read img = k_size img"
  then have h': "argv e = name # args" "file_open e = Inr img" "malloc_ok e" "k_read img = k_size img" by auto
  show "take 5 (events_since w (grub_cmd_linux e w)) =
          [Dl_ref, File_open, Kernel_malloc, Tpm_measure_kernel (k_size img),
           Secure_validate (grub_linuxefi_secure_validate (platform e))]"
  proof (cases "grub_linuxefi_secure_validate (platform e)")
    case False
    then show ?thesis
      by (simp add: grub_cmd_linux_read_ok [OF h'] events_since_def linux_fail_trace read_prefix_def)
  next
    case True
    let ?w5 = "w\<lparr>trace := trace w @ read_prefix e img\<rparr>"
    from linux_load_params_events [of e img ?w5] obtain ys where
      tr: "trace (fst (linux_load_params e img ?w5)) = trace ?w5 @ ys" by blast
    from grub_cmd_linux_events [OF h' True tr]
    have "\<exists>zs. events_since w (grub_cmd_linux e w) = read_prefix e img @ zs" by auto
    then show ?thesis using True by (auto simp: read_prefix_def)
  qed
next
  assume h: "argv e = name # args \<and> file_open e = Inr img \<and> malloc_ok e \<and> k_read img = k_size img"
    and s: "shim_lock (platform e) = None \<and> secure_boot (platform e)"
  then have h': "argv e = name # args" "file_open e = Inr img" "malloc_ok e" "k_read img = k_size img" by auto
  from s have v: "\<not> grub_linuxefi_secure_validate (platform e)"
    by (simp add: grub_linuxefi_secure_validate_def)
  show "grub_errno (grub_cmd_linux e w) = GRUB_ERR_INVALID_COMMAND"
    by (simp add: grub_cmd_linux_read_ok [OF h'] v linux_fail_fields)
  show "errmsg (grub_cmd_linux e w) = name @ '' has invalid signature''"
    by (simp add: grub_cmd_linux_read_ok [OF h'] v linux_fail_fields)
  show "filter is_page_alloc (events_since w (grub_cmd_linux e w)) = []"
    by (simp add: grub_cmd_linux_read_ok [OF h'] v events_since_def linux_fail_trace read_prefix_def)
qed

text \<open>The scenario's image on a firmware without shim protocol and with secure boot on.\<close>

theorem verification_precedes_allocation_witness:
  "verify_ordered False False
     (events_since (init_world [])
        (grub_cmd_linux (scenario_env (scenario_header 0x020b) no_shim_secure_boot) (init_world [])))
   \<and> take 5 (events_since (init_world [])
        (grub_cmd_linux (scenario_env (scenario_header 0x020b) no_shim_secure_boot) (init_world []))) =
          [Dl_ref, File_open, Kernel_malloc, Tpm_measure_kernel 0x2000, Secure_validate False]
   \<and> grub_errno (grub_cmd_linux (scenario_env (scenario_header 0x020b) no_shim_secure_boot) (init_world []))
       = GRUB_ERR_INVALID_COMMAND
   \<and> errmsg (grub_cmd_linux (scenario_env (scenario_header 0x020b) no_shim_secure_boot) (init_world []))
       = ''vmlinuz has invalid signature''
   \<and> filter is_page_alloc (events_since (init_world [])
        (grub_cmd_linux (scenario_env (scenario_header 0x020b) no_shim_secure_boot) (init_world []))) = []"
  using verification_precedes_allocation
    [of "init_world []" "scenario_env (scenario_header 0x020b) no_shim_secure_boot" "''vmlinuz''" "[]"
        "\<lparr> k_size = 0x2000, k_read = 0x2000, k_header = scenario_header 0x020b \<rparr>"]
  by (simp add: scenario_env_def no_shim_secure_boot_def grub_linuxefi_secure_validate_def)

subsection \<open>C9: the size of the ramdisk buffer and its padding\<close>

text \<open>
  Claim C9: for a ramdisk load over files of sizes s1 .. sn the size requested for the
  buffer is the sum of the sizes, each rounded up to a multiple of 4; on success this sum
  is the ramdisk size recorded in the parameter block, and the padding after each file is
  zero. Here the kernel is loaded, its parameter block exists, every file opens, and the
  sum is small enough for 64 bits (the sum plus 4095 is below 2^64). Then the local
  \<open>size\<close> after the first loop is that sum; the command makes one page request, for the
  sum rounded up to whole pages; and when the command returns without error, it has not
  faulted, the ramdisk size field holds the sum, the ramdisk address field holds the
  address of the buffer, nothing has been freed, and in the buffer the bytes between the
  end of each file and the next multiple of 4 are 0.
\<close>

theorem initrd_size_and_padding:
  assumes "initrd_argv e = map Inr fs" "fs \<noteq> []" "zalloc_ok e" "loaded w" "params w \<noteq> 0"
    and "spec_initrd_size fs + 4095 < 2 ^ 64"
  shows "unat (fst (snd (snd (initrd_open_files (initrd_argv e) [] 0 (log Files_zalloc w)))))
           = spec_initrd_size fs
       \<and> (\<exists>r. filter is_page_alloc (events_since w (grub_cmd_initrd e w)) =
              [Allocate_pages_max 0x3fffffff (of_nat ((spec_initrd_size fs + 4095) div 4096)) r])
       \<and> (grub_errno (grub_cmd_initrd e w) = GRUB_ERR_NONE \<longrightarrow>
            unat (ramdisk_size (pmem (grub_cmd_initrd e w) (params (grub_cmd_initrd e w))))
              = spec_initrd_size fs
          \<and> faulted (grub_cmd_initrd e w) = faulted w
          \<and> initrd_mem (grub_cmd_initrd e w) \<noteq> 0
          \<and> ramdisk_image (pmem (grub_cmd_initrd e w) (params (grub_cmd_initrd e w)))
              = ucast (initrd_mem (grub_cmd_initrd e w))
          \<and> filter is_page_free (events_since w (grub_cmd_initrd e w)) = []
          \<and> padding_zeroed (bmem (grub_cmd_initrd e w)) (initrd_mem (grub_cmd_initrd e w)) fs)"
proof -
  let ?sz = "initrd_total fs"
  let ?pg = "BYTES_TO_PAGES ?sz"
  let ?w1 = "w\<lparr>trace := trace w @ Files_zalloc # replicate (length fs) File_open\<rparr>"
  from assms(6) have small: "spec_initrd_size fs < 2 ^ 64" by linarith
  have S: "unat (fst (snd (snd (initrd_open_files (initrd_argv e) [] 0 (log Files_zalloc w)))))
           = spec_initrd_size fs"
    unfolding assms(1) using small by (rule initrd_open_files_size)
  have pg: "?pg = of_nat ((spec_initrd_size fs + 4095) div 4096)"
    using assms(6) by (rule pages_of_initrd_total(1))
  have fit: "spec_initrd_size fs \<le> unat ?pg * 4096"
    using assms(6) by (rule pages_of_initrd_total(2))
  obtain m w2 where al: "grub_efi_allocate_pages_max 0x3fffffff ?pg ?w1 = (m, w2)"
    by (cases "grub_efi_allocate_pages_max 0x3fffffff ?pg ?w1")
  note a = allocate_pages_max_result [OF al]
  let ?pre = "Files_zalloc # replicate (length fs) File_open @ [Allocate_pages_max 0x3fffffff ?pg m]"
  have tr2: "trace w2 = trace w @ ?pre" using a(6) by simp
  have p2: "params w2 = params w" using a(1) by simp
  show ?thesis
  proof (cases "m = 0")
    case True
    have eq: "grub_cmd_initrd e w = initrd_fail True fs ?sz
        (grub_error GRUB_ERR_OUT_OF_MEMORY ''can't allocate initrd'' (w2\<lparr>initrd_mem := m\<rparr>))"
      using True by (simp add: grub_cmd_initrd_unfold [OF assms(1-5)] al Let_def)
    have ev: "events_since w (grub_cmd_initrd e w) =
        ?pre @ replicate (length fs) File_close @ [Files_free]"
      using True by (simp add: eq events_since_def initrd_fail_trace grub_error_def tr2)
    have A: "filter is_page_alloc (events_since w (grub_cmd_initrd e w)) =
        [Allocate_pages_max 0x3fffffff (of_nat ((spec_initrd_size fs + 4095) div 4096)) m]"
      by (simp add: ev pg)
    have B: "grub_errno (grub_cmd_initrd e w) \<noteq> GRUB_ERR_NONE"
      by (simp add: eq initrd_fail_fields grub_error_def)
    from S A B show ?thesis by blast
  next
    case False
    let ?blk = "(pmem w (params w))\<lparr>ramdisk_size := ucast ?sz, ramdisk_image := ucast m\<rparr>"
    let ?w5 = "w2\<lparr>initrd_mem := m, pmem := (pmem w2)(params w2 :=
                 (pmem w2 (params w2))\<lparr>ramdisk_size := ucast ?sz, ramdisk_image := ucast m\<rparr>)\<rparr>"
    obtain ok w6 where rd: "initrd_read_files fs m ?w5 = (ok, w6)"
      by (cases "initrd_read_files fs m ?w5")
    let ?w7 = "if ok then w6\<lparr>pmem := (pmem w6)(params w6 :=
                  (pmem w6 (params w6))\<lparr>ramdisk_size := ucast ?sz\<rparr>)\<rparr> else w6"
    have eq: "grub_cmd_initrd e w = initrd_fail True fs ?sz ?w7"
      using False rd by (simp add: grub_cmd_initrd_unfold [OF assms(1-5)] al Let_def)
    from initrd_read_files_summary [OF rd] obtain ys where
      f: "params w6 = params w" "pmem w6 = (pmem w)(params w := ?blk)" "initrd_mem w6 = m"
        "faulted w6 = faulted w"
      and tr: "trace w6 = trace w @ ?pre @ ys"
      and ys: "\<forall>x\<in>set ys. \<not> is_page_alloc x \<and> (\<forall>a. \<not> frees a x)"
      and okerr: "\<not> ok \<longrightarrow> grub_errno w6 \<noteq> GRUB_ERR_NONE"
      using a(1,2,7) tr2 by auto
    have ys1: "filter is_page_alloc ys = []" using ys by (simp add: filter_empty_conv)
    have "\<forall>x\<in>set ys. \<not> is_page_free x"
    proof
      fix x assume "x \<in> set ys"
      with ys have "\<forall>a. \<not> frees a x" by blast
      then show "\<not> is_page_free x" by (cases x) auto
    qed
    then have ys2: "filter is_page_free ys = []" by (simp add: filter_empty_conv)
    have ev: "events_since w (grub_cmd_initrd e w) =
        ?pre @ ys @ replicate (length fs) File_close @ [Files_free]
          @ (if grub_errno w6 \<noteq> GRUB_ERR_NONE then [Free_pages m ?pg] else [])"
      using False f by (auto simp: eq events_since_def initrd_fail_trace tr)
    have A: "filter is_page_alloc (events_since w (grub_cmd_initrd e w)) =
        [Allocate_pages_max 0x3fffffff (of_nat ((spec_initrd_size fs + 4095) div 4096)) m]"
      by (simp add: ev ys1 pg [symmetric])
    have B: "unat (ramdisk_size (pmem (grub_cmd_initrd e w) (params (grub_cmd_initrd e w))))
              = spec_initrd_size fs
          \<and> faulted (grub_cmd_initrd e w) = faulted w
          \<and> initrd_mem (grub_cmd_initrd e w) \<noteq> 0
          \<and> ramdisk_image (pmem (grub_cmd_initrd e w) (params (grub_cmd_initrd e w)))
              = ucast (initrd_mem (grub_cmd_initrd e w))
          \<and> filter is_page_free (events_since w (grub_cmd_initrd e w)) = []
          \<and> padding_zeroed (bmem (grub_cmd_initrd e w)) (initrd_mem (grub_cmd_initrd e w)) fs"
      if n: "grub_errno (grub_cmd_initrd e w) = GRUB_ERR_NONE"
    proof -
      from n have e6: "grub_errno w6 = GRUB_ERR_NONE"
        by (auto simp: eq initrd_fail_fields split: if_splits)
      with okerr have ok: "ok" by blast
      from a(8) False have "unat m + unat ?pg * 4096 \<le> 2 ^ 30" by simp
      with fit have room: "unat m + spec_initrd_size fs \<le> 2 ^ 30" by linarith
      then have "spec_initrd_size fs < 2 ^ 32" by simp
      then have "unat ?sz < 2 ^ 32" using small by (simp only: unat_initrd_total)
      then have "unat (ucast ?sz :: 32 word) = unat ?sz"
        by (simp add: unsigned_ucast_eq take_bit_nat_eq_self)
      then have rs: "unat (ucast ?sz :: 32 word) = spec_initrd_size fs"
        using small by (simp only: unat_initrd_total)
      from room have "unat m + spec_initrd_size fs < 2 ^ 64" by simp
      with rd ok have "padding_zeroed (bmem w6) m fs"
        by (intro initrd_read_files_padding [of fs m ?w5 w6]) simp_all
      then have pz: "padding_zeroed (bmem (grub_cmd_initrd e w)) (initrd_mem (grub_cmd_initrd e w)) fs"
        using ok f by (simp add: eq initrd_fail_fields)
      have fr: "filter is_page_free (events_since w (grub_cmd_initrd e w)) = []"
        using e6 by (simp add: ev ys2)
      have fld: "ramdisk_size (pmem (grub_cmd_initrd e w) (params (grub_cmd_initrd e w))) = ucast ?sz"
        "initrd_mem (grub_cmd_initrd e w) = m"
        "ramdisk_image (pmem (grub_cmd_initrd e w) (params (grub_cmd_initrd e w))) = ucast m"
        "faulted (grub_cmd_initrd e w) = faulted w"
        using ok f by (simp_all add: eq initrd_fail_fields)
      from fld rs False pz fr show ?thesis by simp
    qed
    from S A B show ?thesis by blast
  qed
qed

text \<open>
  The two files of 10 and 3 bytes after the scenario's load: 16 bytes, one page, two
  bytes of padding after the first file and one after the second.
\<close>

theorem initrd_size_and_padding_witness:
  "(let fs = [\<lparr> file_name = ''initrd.img'', file_size = 10,
                file_read = Read_bytes [1, 2, 3, 4, 5, 6, 7, 8, 9, 10] \<rparr>,
              \<lparr> file_name = ''extra.img'', file_size = 3, file_read = Read_bytes [1, 2, 3] \<rparr>];
        w = (scenario_loaded [0x300000])\<lparr>bmem := (\<lambda>_. 0xff)\<rparr>;
        w' = grub_cmd_initrd two_files w
    in grub_errno w' = GRUB_ERR_NONE
       \<and> (\<exists>r. filter is_page_alloc (events_since w w') = [Allocate_pages_max 0x3fffffff 1 r])
       \<and> unat (ramdisk_size (pmem w' (params w'))) = 16
       \<and> \<not> faulted w' \<and> initrd_mem w' = 0x300000
       \<and> filter is_page_free (events_since w w') = []
       \<and> padding_zeroed (bmem w') (initrd_mem w') fs
       \<and> bmem w' 0x300009 = 10 \<and> bmem w' 0x30000a = 0 \<and> bmem w' 0x30000b = 0
       \<and> bmem w' 0x30000e = 3 \<and> bmem w' 0x30000f = 0 \<and> bmem w' 0x300010 = 0xff)"
proof -
  let ?fs = "[\<lparr> file_name = ''initrd.img'', file_size = 10,
                file_read = Read_bytes [1, 2, 3, 4, 5, 6, 7, 8, 9, 10] \<rparr>,
              \<lparr> file_name = ''extra.img'', file_size = 3, file_read = Read_bytes [1, 2, 3] \<rparr>]"
  let ?w = "(scenario_loaded [0x300000])\<lparr>bmem := (\<lambda>_. 0xff)\<rparr>"
  have t: "spec_initrd_size ?fs = 16" by (simp add: spec_initrd_size_def)
  have e: "grub_errno (grub_cmd_initrd two_files ?w) = GRUB_ERR_NONE"
    "initrd_mem (grub_cmd_initrd two_files ?w) = 0x300000"
    by (simp_all add: initrd_eval_defs cong: let_weak_cong)
  have b: "bmem (grub_cmd_initrd two_files ?w) 0x300009 = 10"
    "bmem (grub_cmd_initrd two_files ?w) 0x30000a = 0"
    "bmem (grub_cmd_initrd two_files ?w) 0x30000b = 0"
    "bmem (grub_cmd_initrd two_files ?w) 0x30000e = 3"
    "bmem (grub_cmd_initrd two_files ?w) 0x30000f = 0"
    "bmem (grub_cmd_initrd two_files ?w) 0x300010 = 0xff"
    by (simp_all add: initrd_eval_defs replicate_two cong: let_weak_cong)
  have h: "initrd_argv two_files = map Inr ?fs" "?fs \<noteq> []" "zalloc_ok two_files"
    "loaded ?w" "params ?w \<noteq> 0" "spec_initrd_size ?fs + 4095 < 2 ^ 64"
    by (simp_all add: two_files_def scenario_loaded_def t)
  have nf: "\<not> faulted ?w" by (simp add: scenario_loaded_def)
  from initrd_size_and_padding [OF h] e nf b show ?thesis
    by (simp add: t Let_def)
qed

subsection \<open>C10: at most one allocation of each kind\<close>

text \<open>
  Claim C10: at every point of every sequence of commands at most one parameter block,
  one kernel memory, one command line buffer and one ramdisk buffer are outstanding; a
  second load neither leaves a second set nor orphans the first. The code orphans the
  first set: a load does not release what an earlier load holds, it overwrites the
  pointers (lines 246, 282 and 307). After two loads of the scenario's image both
  parameter blocks, at 0x100000 and at 0x300000, are outstanding, \<open>params\<close> points to the
  second, and nothing of the first has been freed.
\<close>

theorem second_load_orphans_first:
  "(let w = run [Cmd_linux (scenario_env (scenario_header 0x020b) no_shim),
                 Cmd_linux (scenario_env (scenario_header 0x020b) no_shim)]
              (init_world [0x100000, 0x200000, 1, 0x300000, 0x400000, 0, 0x500000])
    in loaded w \<and> grub_errno w = GRUB_ERR_NONE \<and> params w = 0x300000
       \<and> outstanding (trace w) 0x100000 = 1 \<and> outstanding (trace w) 0x300000 = 1
       \<and> filter (frees 0x100000) (trace w) = []
       \<and> filter (frees 0x200000) (trace w) = []
       \<and> filter (frees 0x1000000) (trace w) = [])"
  by (simp add: run_def exec_init scenario_load) (simp add: eval_defs cong: let_weak_cong)

end
